theory Spec2Isabelle
  imports Main "HOL-Library.List_Lexorder" "HOL-Library.Word"
begin

unbundle bit_operations_syntax

section \<open>Python strings\<close>

text \<open>
  A Python \<^verbatim>\<open>str\<close> is a sequence of Unicode code points, so it is modelled as a list of
  natural numbers. \<open>py\<close> turns an ASCII literal into such a string. The order on lists
  of HOL-Library.List_Lexorder is the lexicographic order by code point, which is
  the order Python compares strings with.
\<close>

type_synonym pystr = "nat list"

definition py :: "string \<Rightarrow> pystr" where
  "py s = map of_char s"

section \<open>config/permissions.py\<close>

text \<open>
  \<^verbatim>\<open>class Role(str, Enum)\<close>: a member compares and hashes as its string value, so the
  members are the strings themselves.
\<close>

definition Role_ADMIN :: pystr where "Role_ADMIN = py ''admin''"
definition Role_SALES :: pystr where "Role_SALES = py ''sales''"
definition Role_SUPPORT :: pystr where "Role_SUPPORT = py ''support''"
definition Role_FINANCE :: pystr where "Role_FINANCE = py ''finance''"
definition Role_READONLY :: pystr where "Role_READONLY = py ''readonly''"

text \<open>The class-level dictionaries, as association lists in the order of the source.\<close>

definition FUNCTION_PERMISSIONS :: "(pystr \<times> pystr list) list" where
  "FUNCTION_PERMISSIONS =
    [(py ''get_client_notes'', [Role_ADMIN, Role_SALES, Role_SUPPORT]),
     (py ''get_all_notes'', [Role_ADMIN, Role_SALES, Role_SUPPORT]),
     (py ''get_transaction_count'', [Role_ADMIN, Role_FINANCE, Role_SALES]),
     (py ''get_total_amount_paid'', [Role_ADMIN, Role_FINANCE]),
     (py ''get_payment_history'', [Role_ADMIN, Role_FINANCE]),
     (py ''get_contract_status'', [Role_ADMIN, Role_SALES]),
     (py ''get_client_summary'', [Role_ADMIN, Role_SALES, Role_FINANCE])]"

definition RATE_LIMITS :: "(pystr \<times> int) list" where
  "RATE_LIMITS =
    [(Role_ADMIN, 1000), (Role_SALES, 500), (Role_SUPPORT, 500),
     (Role_FINANCE, 300), (Role_READONLY, 100)]"

text \<open>
  An entry of \<^verbatim>\<open>DATA_ACCESS\<close>. The \<^verbatim>\<open>tables\<close> value is either the string \<^verbatim>\<open>"*"\<close> or a
  list of table names.
\<close>

datatype tables = AllTables | Tables "pystr list"

record data_access =
  can_view_all_clients_flag :: bool
  can_view_financials_flag :: bool
  tables_of :: tables

definition DATA_ACCESS :: "(pystr \<times> data_access) list" where
  "DATA_ACCESS =
    [(Role_ADMIN, \<lparr>can_view_all_clients_flag = True, can_view_financials_flag = True,
        tables_of = AllTables\<rparr>),
     (Role_SALES, \<lparr>can_view_all_clients_flag = True, can_view_financials_flag = False,
        tables_of = Tables [py ''dbo.notes'', py ''dbo.contracts'', py ''dbo.clients'']\<rparr>),
     (Role_SUPPORT, \<lparr>can_view_all_clients_flag = False, can_view_financials_flag = False,
        tables_of = Tables [py ''dbo.notes'', py ''dbo.tickets'']\<rparr>),
     (Role_FINANCE, \<lparr>can_view_all_clients_flag = True, can_view_financials_flag = True,
        tables_of = Tables [py ''dbo.payments'', py ''dbo.invoices'', py ''dbo.contracts'']\<rparr>),
     (Role_READONLY, \<lparr>can_view_all_clients_flag = False, can_view_financials_flag = False,
        tables_of = Tables []\<rparr>)]"

text \<open>\<^verbatim>\<open>cls.FUNCTION_PERMISSIONS.get(function_name, [])\<close>\<close>

definition allowed_roles :: "pystr \<Rightarrow> pystr list" where
  "allowed_roles function_name =
    (case map_of FUNCTION_PERMISSIONS function_name of None \<Rightarrow> [] | Some rs \<Rightarrow> rs)"

definition can_access_function :: "pystr \<Rightarrow> pystr \<Rightarrow> bool" where
  "can_access_function role function_name =
    (role \<in> set (allowed_roles function_name) \<or> role = Role_ADMIN)"

definition get_rate_limit :: "pystr \<Rightarrow> int" where
  "get_rate_limit role = (case map_of RATE_LIMITS role of None \<Rightarrow> 100 | Some n \<Rightarrow> n)"

definition can_view_all_clients :: "pystr \<Rightarrow> bool" where
  "can_view_all_clients role =
    (case map_of DATA_ACCESS role of None \<Rightarrow> False | Some a \<Rightarrow> can_view_all_clients_flag a)"

definition can_view_financials :: "pystr \<Rightarrow> bool" where
  "can_view_financials role =
    (case map_of DATA_ACCESS role of None \<Rightarrow> False | Some a \<Rightarrow> can_view_financials_flag a)"

section \<open>String operations of Python\<close>

text \<open>
  The code points that \<^verbatim>\<open>str.strip()\<close> removes: those for which \<^verbatim>\<open>str.isspace\<close> holds.
\<close>

definition py_isspace :: "nat \<Rightarrow> bool" where
  "py_isspace c =
    ((9 \<le> c \<and> c \<le> 13) \<or> (28 \<le> c \<and> c \<le> 32) \<or> c = 0x85 \<or> c = 0xA0 \<or> c = 0x1680
     \<or> (0x2000 \<le> c \<and> c \<le> 0x200A) \<or> c = 0x2028 \<or> c = 0x2029 \<or> c = 0x202F
     \<or> c = 0x205F \<or> c = 0x3000)"

definition str_strip :: "pystr \<Rightarrow> pystr" where
  "str_strip s = rev (dropWhile py_isspace (rev (dropWhile py_isspace s)))"

text \<open>
  \<^verbatim>\<open>s.replace(old, '')\<close>: the occurrences of \<open>old\<close> are found from the left, without
  overlap, and removed. For the empty \<open>old\<close> the result is \<open>s\<close>.
\<close>

function str_remove :: "pystr \<Rightarrow> pystr \<Rightarrow> pystr" where
  "str_remove old [] = []"
| "str_remove old (c # cs) =
    (if old \<noteq> [] \<and> take (length old) (c # cs) = old
     then str_remove old (drop (length old) (c # cs))
     else c # str_remove old cs)"
  by pat_completeness auto
termination
  by (relation "measure (\<lambda>(old, s). length s)") (auto simp: neq_Nil_conv)

section \<open>functions/base\_function.py: input sanitizing\<close>

definition dangerous :: "pystr list" where
  "dangerous = [py '';'', py ''--'', py ''/*'', py ''*/'', py ''xp_'', py ''sp_'']"

text \<open>
  \<^verbatim>\<open>_sanitize_input\<close>. The argument is \<^verbatim>\<open>None\<close> or a string; \<^verbatim>\<open>not value\<close> holds for
  \<^verbatim>\<open>None\<close> and for the empty string.
\<close>

definition sanitize_input :: "pystr option \<Rightarrow> pystr" where
  "sanitize_input value =
    (case value of
       None \<Rightarrow> []
     | Some v \<Rightarrow>
         if v = [] then []
         else str_strip (foldl (\<lambda>sanitized char. str_remove char sanitized) v dangerous))"

section \<open>Python values and exceptions\<close>

text \<open>
  The values that travel as arguments, query parameters and cached results: \<^verbatim>\<open>None\<close>,
  integers, strings, and dictionaries from strings to strings in insertion order (the
  caller identity \<^verbatim>\<open>__user__\<close> is one).
\<close>

datatype pyval = PNone | PInt int | PStr pystr | PDict "(pystr \<times> pystr) list"

text \<open>An exception: the name of its class and the text \<^verbatim>\<open>str(e)\<close>.\<close>

datatype exn = Exception (exn_class: pystr) (exn_text: pystr)

section \<open>The Redis server behind config/cache.py\<close>

text \<open>
  The server is modelled by the commands the repository sends. An entry holds the stored
  text, represented by the value that the text is the JSON form of (\<^verbatim>\<open>json.dumps\<close> then
  \<^verbatim>\<open>json.loads\<close> is the identity on the values of \<open>pyval\<close>; the decimal text written by
  \<^verbatim>\<open>INCR\<close> is the JSON form of the integer), and the time at which it expires, if any. An
  entry whose time has come is absent. \<open>outage\<close> is the text of the connection error that
  every command raises while the server cannot be reached. \<open>matches\<close> is the server's
  glob matcher of \<^verbatim>\<open>KEYS\<close> (pattern, then key).
\<close>

record redis =
  entries :: "(pystr \<times> pyval \<times> nat option) list"
  clock :: nat
  outage :: "pystr option"
  matches :: "pystr \<Rightarrow> pystr \<Rightarrow> bool"

definition unreachable :: "pystr \<Rightarrow> exn" where
  "unreachable msg = Exception (py ''ConnectionError'') msg"

definition alive :: "redis \<Rightarrow> nat option \<Rightarrow> bool" where
  "alive r deadline = (case deadline of None \<Rightarrow> True | Some t \<Rightarrow> clock r < t)"

definition lookup :: "redis \<Rightarrow> pystr \<Rightarrow> (pyval \<times> nat option) option" where
  "lookup r k =
    (case map_of (entries r) k of
       None \<Rightarrow> None
     | Some (v, deadline) \<Rightarrow> if alive r deadline then Some (v, deadline) else None)"

definition store :: "redis \<Rightarrow> pystr \<Rightarrow> pyval \<times> nat option \<Rightarrow> redis" where
  "store r k e = r\<lparr>entries := (k, e) # filter (\<lambda>p. fst p \<noteq> k) (entries r)\<rparr>"

definition remove :: "redis \<Rightarrow> pystr \<Rightarrow> redis" where
  "remove r k = r\<lparr>entries := filter (\<lambda>p. fst p \<noteq> k) (entries r)\<rparr>"

text \<open>Time passes on the server.\<close>

definition advance :: "nat \<Rightarrow> redis \<Rightarrow> redis" where
  "advance d r = r\<lparr>clock := clock r + d\<rparr>"

definition redis_get :: "redis \<Rightarrow> pystr \<Rightarrow> exn + pyval option" where
  "redis_get r k =
    (case outage r of
       Some msg \<Rightarrow> Inl (unreachable msg)
     | None \<Rightarrow> Inr (map_option fst (lookup r k)))"

definition redis_setex :: "redis \<Rightarrow> pystr \<Rightarrow> int \<Rightarrow> pyval \<Rightarrow> exn + redis" where
  "redis_setex r k ttl v =
    (case outage r of
       Some msg \<Rightarrow> Inl (unreachable msg)
     | None \<Rightarrow>
         if ttl \<le> 0
         then Inl (Exception (py ''ResponseError'') (py ''invalid expire time in setex''))
         else Inr (store r k (v, Some (clock r + nat ttl))))"

text \<open>\<^verbatim>\<open>INCRBY\<close>: an absent key counts from 0; the value is a signed 64-bit integer.\<close>

definition redis_incr :: "redis \<Rightarrow> pystr \<Rightarrow> int \<Rightarrow> exn + (int \<times> redis)" where
  "redis_incr r k amount =
    (case outage r of
       Some msg \<Rightarrow> Inl (unreachable msg)
     | None \<Rightarrow>
         (case (case lookup r k of None \<Rightarrow> Some (0, None)
                | Some (PInt n, deadline) \<Rightarrow> Some (n, deadline)
                | Some (_, _) \<Rightarrow> None) of
            None \<Rightarrow>
              Inl (Exception (py ''ResponseError'') (py ''value is not an integer or out of range''))
          | Some (n, deadline) \<Rightarrow>
              if n + amount < - (2 ^ 63) \<or> 2 ^ 63 \<le> n + amount
              then Inl (Exception (py ''ResponseError'') (py ''increment or decrement would overflow''))
              else Inr (n + amount, store r k (PInt (n + amount), deadline))))"

text \<open>\<^verbatim>\<open>EXPIRE\<close>: false for an absent key; a timeout that is not positive deletes the key.\<close>

definition redis_expire :: "redis \<Rightarrow> pystr \<Rightarrow> int \<Rightarrow> exn + (bool \<times> redis)" where
  "redis_expire r k seconds =
    (case outage r of
       Some msg \<Rightarrow> Inl (unreachable msg)
     | None \<Rightarrow>
         (case lookup r k of
            None \<Rightarrow> Inr (False, r)
          | Some (v, _) \<Rightarrow>
              if seconds \<le> 0 then Inr (True, remove r k)
              else Inr (True, store r k (v, Some (clock r + nat seconds)))))"

text \<open>\<^verbatim>\<open>DEL\<close> of several keys: the number of keys that were there.\<close>

definition redis_delete :: "redis \<Rightarrow> pystr list \<Rightarrow> exn + (int \<times> redis)" where
  "redis_delete r ks =
    (case outage r of
       Some msg \<Rightarrow> Inl (unreachable msg)
     | None \<Rightarrow>
         Inr (int (length (filter (\<lambda>k. lookup r k \<noteq> None) (remdups ks))),
              foldl remove r ks))"

definition redis_keys :: "redis \<Rightarrow> pystr \<Rightarrow> exn + pystr list" where
  "redis_keys r pattern =
    (case outage r of
       Some msg \<Rightarrow> Inl (unreachable msg)
     | None \<Rightarrow>
         Inr (filter (\<lambda>k. lookup r k \<noteq> None \<and> matches r pattern k) (remdups (map fst (entries r)))))"

section \<open>config/cache.py\<close>

text \<open>
  \<^verbatim>\<open>CacheConfig\<close>: \<open>client\<close> is \<^verbatim>\<open>self._client\<close>, which is \<^verbatim>\<open>None\<close> when the server did not
  answer the ping at start-up. The methods return their result and the object with the
  server's new state. The calls of the module's logger are not part of the model.
\<close>

record cache_config =
  client :: "redis option"
  default_ttl :: int

definition create_client :: "redis \<Rightarrow> redis option" where
  "create_client r = (case outage r of Some msg \<Rightarrow> None | None \<Rightarrow> Some r)"

text \<open>
  \<^verbatim>\<open>get\<close>: the stored text is never empty, so \<^verbatim>\<open>if value\<close> holds whenever the key is there,
  and \<^verbatim>\<open>json.loads\<close> gives back the value (\<^verbatim>\<open>None\<close> for the text \<^verbatim>\<open>null\<close>).
\<close>

definition cache_get :: "cache_config \<Rightarrow> pystr \<Rightarrow> pyval" where
  "cache_get c key =
    (case client c of
       None \<Rightarrow> PNone
     | Some r \<Rightarrow>
         (case redis_get r key of
            Inl e \<Rightarrow> PNone
          | Inr None \<Rightarrow> PNone
          | Inr (Some v) \<Rightarrow> v))"

text \<open>\<^verbatim>\<open>set\<close>: \<^verbatim>\<open>ttl or self.default_ttl\<close> replaces \<^verbatim>\<open>None\<close> and 0 by the default.\<close>

definition cache_set :: "cache_config \<Rightarrow> pystr \<Rightarrow> pyval \<Rightarrow> int option \<Rightarrow> bool \<times> cache_config" where
  "cache_set c key v ttl =
    (case client c of
       None \<Rightarrow> (False, c)
     | Some r \<Rightarrow>
         (let ttl' = (case ttl of None \<Rightarrow> default_ttl c
                      | Some t \<Rightarrow> if t = 0 then default_ttl c else t)
          in case redis_setex r key ttl' v of
               Inl e \<Rightarrow> (False, c)
             | Inr r' \<Rightarrow> (True, c\<lparr>client := Some r'\<rparr>)))"

definition cache_delete :: "cache_config \<Rightarrow> pystr \<Rightarrow> bool \<times> cache_config" where
  "cache_delete c key =
    (case client c of
       None \<Rightarrow> (False, c)
     | Some r \<Rightarrow>
         (case redis_delete r [key] of
            Inl e \<Rightarrow> (False, c)
          | Inr (n, r') \<Rightarrow> (True, c\<lparr>client := Some r'\<rparr>)))"

definition clear_pattern :: "cache_config \<Rightarrow> pystr \<Rightarrow> int \<times> cache_config" where
  "clear_pattern c pattern =
    (case client c of
       None \<Rightarrow> (0, c)
     | Some r \<Rightarrow>
         (case redis_keys r pattern of
            Inl e \<Rightarrow> (0, c)
          | Inr keys \<Rightarrow>
              if keys \<noteq> [] then
                (case redis_delete r keys of
                   Inl e \<Rightarrow> (0, c)
                 | Inr (deleted, r') \<Rightarrow> (deleted, c\<lparr>client := Some r'\<rparr>))
              else (0, c)))"

definition increment :: "cache_config \<Rightarrow> pystr \<Rightarrow> int \<Rightarrow> int \<times> cache_config" where
  "increment c key amount =
    (case client c of
       None \<Rightarrow> (0, c)
     | Some r \<Rightarrow>
         (case redis_incr r key amount of
            Inl e \<Rightarrow> (0, c)
          | Inr (n, r') \<Rightarrow> (n, c\<lparr>client := Some r'\<rparr>)))"

definition expire :: "cache_config \<Rightarrow> pystr \<Rightarrow> int \<Rightarrow> bool \<times> cache_config" where
  "expire c key seconds =
    (case client c of
       None \<Rightarrow> (False, c)
     | Some r \<Rightarrow>
         (case redis_expire r key seconds of
            Inl e \<Rightarrow> (False, c)
          | Inr (b, r') \<Rightarrow> (b, c\<lparr>client := Some r'\<rparr>)))"

section \<open>The database behind config/database.py\<close>

text \<open>
  A column value of a result row: \<open>DateTime f s\<close> is a \<^verbatim>\<open>datetime\<close> whose
  \<^verbatim>\<open>strftime('%Y-%m-%d %H:%M')\<close> is \<open>f\<close> and whose \<^verbatim>\<open>str\<close> is \<open>s\<close>; \<open>Plain t s\<close> is a value
  of any other type, named \<open>t\<close>, with \<^verbatim>\<open>str\<close> text \<open>s\<close> and no \<^verbatim>\<open>strftime\<close>. A row is the
  dictionary that \<^verbatim>\<open>dict(zip(columns, row))\<close> builds.
\<close>

datatype cell = Plain pystr pystr | DateTime pystr pystr

type_synonym row = "(pystr \<times> cell) list"

text \<open>
  What the database does with one parameterized query under a \<^verbatim>\<open>SET ROWCOUNT\<close> limit:
  \<open>ConnectFailed\<close> when \<^verbatim>\<open>get_connection\<close> or the session set-up raises, so that the query
  is not sent; \<open>QueryFailed\<close> when the query is sent and executing or fetching raises;
  \<open>Rows\<close> otherwise.
\<close>

datatype db_outcome = ConnectFailed exn | QueryFailed exn | Rows "row list"

type_synonym database = "int \<Rightarrow> pystr \<Rightarrow> pyval list \<Rightarrow> db_outcome"

section \<open>functions/base\_function.py\<close>

text \<open>
  The effects of a call besides the cache: the lines given to \<^verbatim>\<open>self.logger\<close> and the
  queries sent to the database, oldest first. \<open>Timing f e\<close> is the line of
  \<^verbatim>\<open>track_performance\<close> for \<open>f\<close>, whose text holds the elapsed time; \<open>e\<close> is the text of the
  exception when the call raised.
\<close>

datatype level = DEBUG | INFO | WARNING | ERROR

datatype event = Log level pystr | Sql pystr "pyval list" | Timing pystr "pystr option"

text \<open>The state shared between calls: the singleton \<^verbatim>\<open>cache\<close>, and the effects so far.\<close>

record world =
  cache :: cache_config
  trace :: "event list"

text \<open>
  The configuration read from the environment and from \<^verbatim>\<open>queries.json\<close>:
  \<open>row_level_security\<close> is \<^verbatim>\<open>os.getenv('ENABLE_ROW_LEVEL_SECURITY', 'true').lower() == 'true'\<close>,
  and \<open>notes_query\<close> is \<^verbatim>\<open>QUERIES.get("client_notes", {}).get("get_all_notes")\<close>.
  \<open>isprintable\<close> is the table of the interpreter's Unicode database that \<^verbatim>\<open>repr\<close> consults
  for the code points from 128 on.
\<close>

record environment =
  database :: database
  row_level_security :: bool
  notes_query :: "pystr option"
  isprintable :: "nat \<Rightarrow> bool"

text \<open>An instance of \<^verbatim>\<open>BaseClientFunction\<close>.\<close>

record base_client_function =
  FUNCTION_NAME :: pystr
  max_rows :: int

type_synonym user = "(pystr \<times> pystr) list"

definition emit :: "event \<Rightarrow> world \<Rightarrow> world" where
  "emit e w = w\<lparr>trace := trace w @ [e]\<rparr>"

text \<open>\<^verbatim>\<open>str\<close> of an integer.\<close>

fun digits :: "nat \<Rightarrow> pystr" where
  "digits n = (if n < 10 then [48 + n] else digits (n div 10) @ [48 + n mod 10])"

declare digits.simps [simp del]

definition int_str :: "int \<Rightarrow> pystr" where
  "int_str i = (if i < 0 then py ''-'' @ digits (nat (- i)) else digits (nat i))"

definition newline :: pystr where
  "newline = [10]"

text \<open>
  \<^verbatim>\<open>track_performance\<close>: the wrapped call runs, one line is logged, and the result or the
  exception is passed on.
\<close>

definition track_performance ::
  "pystr \<Rightarrow> (world \<Rightarrow> (exn + 'a) \<times> world) \<Rightarrow> world \<Rightarrow> (exn + 'a) \<times> world" where
  "track_performance name f w =
    (case f w of
       (Inr result, w') \<Rightarrow> (Inr result, emit (Timing name None) w')
     | (Inl e, w') \<Rightarrow> (Inl e, emit (Timing name (Some (exn_text e))) w'))"

definition unable_to_retrieve :: exn where
  "unable_to_retrieve =
    Exception (py ''Exception'') (py ''Unable to retrieve data. Please try again later.'')"

text \<open>
  \<^verbatim>\<open>_execute_query\<close>, with \<^verbatim>\<open>max_rows\<close> left at \<^verbatim>\<open>None\<close> as every caller does:
  \<^verbatim>\<open>max_rows or self.max_rows\<close> is then \<^verbatim>\<open>self.max_rows\<close>. The flag \<^verbatim>\<open>use_cache\<close> is not read
  by the body.
\<close>

definition execute_query_body ::
  "base_client_function \<Rightarrow> environment \<Rightarrow> pystr \<Rightarrow> pyval list \<Rightarrow> world
    \<Rightarrow> (exn + row list) \<times> world" where
  "execute_query_body self env query params w =
    (case database env (max_rows self) query params of
       ConnectFailed e \<Rightarrow>
         (Inl unable_to_retrieve,
          emit (Log ERROR (py ''Query execution failed: '' @ exn_text e)) w)
     | QueryFailed e \<Rightarrow>
         (Inl unable_to_retrieve,
          emit (Log ERROR (py ''Query execution failed: '' @ exn_text e))
            (emit (Sql query params) w))
     | Rows results \<Rightarrow>
         (Inr results,
          emit (Log DEBUG (py ''Query executed: '' @ int_str (int (length results))
                  @ py '' rows returned. Query: '' @ take 100 query @ py ''...''))
            (emit (Sql query params) w)))"

definition execute_query ::
  "base_client_function \<Rightarrow> environment \<Rightarrow> pystr \<Rightarrow> pyval list \<Rightarrow> world
    \<Rightarrow> (exn + row list) \<times> world" where
  "execute_query self env query params w =
    track_performance (py ''_execute_query'') (execute_query_body self env query params) w"

definition user_get :: "user \<Rightarrow> pystr \<Rightarrow> pystr \<Rightarrow> pystr" where
  "user_get u key dflt = (case map_of u key of None \<Rightarrow> dflt | Some v \<Rightarrow> v)"

definition access_query :: pystr where
  "access_query =
    newline @ py ''            SELECT 1''
    @ newline @ py ''            FROM dbo.user_client_access''
    @ newline @ py ''            WHERE user_id = ? AND client_id = ?''
    @ newline @ py ''        ''"

text \<open>\<^verbatim>\<open>_can_access_client\<close>; \<^verbatim>\<open>user.get('id')\<close> is \<^verbatim>\<open>None\<close> for a user without an id.\<close>

definition can_access_client ::
  "base_client_function \<Rightarrow> environment \<Rightarrow> user \<Rightarrow> pystr \<Rightarrow> world \<Rightarrow> bool \<times> world" where
  "can_access_client self env u client_id w =
    (let user_role = user_get u (py ''role'') []
     in if can_view_all_clients user_role then (True, w)
        else
          (let user_id = (case map_of u (py ''id'') of None \<Rightarrow> PNone | Some i \<Rightarrow> PStr i)
           in case execute_query self env access_query [user_id, PStr client_id] w of
                (Inr results, w') \<Rightarrow> (0 < length results, w')
              | (Inl e, w') \<Rightarrow>
                  (False,
                   emit (Log ERROR (py ''Error checking client access: '' @ exn_text e)) w')))"

definition check_rate_limit :: "user \<Rightarrow> world \<Rightarrow> bool \<times> world" where
  "check_rate_limit u w =
    (let user_id = user_get u (py ''id'') (py ''unknown'');
         user_role = user_get u (py ''role'') [];
         limit = get_rate_limit user_role;
         key = py ''rate_limit:'' @ user_id;
         (current, c1) = increment (cache w) key 1;
         c2 = (if current = 1 then snd (expire c1 key 3600) else c1)
     in (\<not> limit < current, w\<lparr>cache := c2\<rparr>))"

text \<open>
  \<^verbatim>\<open>_check_permissions\<close>. \<^verbatim>\<open>client_id\<close> is \<^verbatim>\<open>None\<close> or a string, and the test \<^verbatim>\<open>if client_id\<close>
  fails for \<^verbatim>\<open>None\<close> and for the empty string. \<open>rate_limit_stage\<close> is the last block of the
  method, reached when no earlier check has returned.
\<close>

definition rate_limit_stage :: "user \<Rightarrow> world \<Rightarrow> bool \<times> world" where
  "rate_limit_stage u w =
    (case check_rate_limit u w of
       (False, w') \<Rightarrow>
         (False,
          emit (Log WARNING (py ''Rate limit exceeded: user=''
                  @ user_get u (py ''id'') (py ''unknown''))) w')
     | (True, w') \<Rightarrow> (True, w'))"

definition check_permissions ::
  "base_client_function \<Rightarrow> environment \<Rightarrow> user \<Rightarrow> pystr option \<Rightarrow> world \<Rightarrow> bool \<times> world" where
  "check_permissions self env u client_id w =
    (let user_id = user_get u (py ''id'') (py ''unknown'');
         user_role = user_get u (py ''role'') []
     in if \<not> can_access_function user_role (FUNCTION_NAME self) then
          (False,
           emit (Log WARNING (py ''Permission denied: user='' @ user_id @ py '', role=''
                   @ user_role @ py '', function='' @ FUNCTION_NAME self)) w)
        else
          (case client_id of
             None \<Rightarrow> rate_limit_stage u w
           | Some cid \<Rightarrow>
               if cid \<noteq> [] \<and> row_level_security env then
                 (case can_access_client self env u cid w of
                    (False, w') \<Rightarrow>
                      (False,
                       emit (Log WARNING (py ''Client access denied: user='' @ user_id
                               @ py '', client='' @ cid)) w')
                  | (True, w') \<Rightarrow> rate_limit_stage u w')
               else rate_limit_stage u w))"

section \<open>States of the cache used in the statements\<close>

text \<open>
  The cache is down when no client was created at start-up or the server cannot be reached
  at the time of the call.
\<close>

definition cache_down :: "cache_config \<Rightarrow> bool" where
  "cache_down c = (case client c of None \<Rightarrow> True | Some r \<Rightarrow> outage r \<noteq> None)"

definition no_match :: "pystr \<Rightarrow> pystr \<Rightarrow> bool" where
  "no_match pattern key = False"

definition redis_unreachable :: redis where
  "redis_unreachable =
    \<lparr>entries = [(py ''rate_limit:user123'', PInt 7, None)], clock = 0,
     outage = Some (py ''Connection refused''), matches = no_match\<rparr>"

section \<open>Successive rate-limit checks\<close>

text \<open>
  The counter key of a caller, the passing of \<open>d\<close> seconds, and a run of rate-limit checks
  of one caller, each after the given delay; the results are in the order of the calls.
\<close>

definition rate_key :: "user \<Rightarrow> pystr" where
  "rate_key u = py ''rate_limit:'' @ user_get u (py ''id'') (py ''unknown'')"



definition redis_empty :: redis where
  "redis_empty = \<lparr>entries = [], clock = 1000, outage = None, matches = no_match\<rparr>"

definition world_empty :: world where
  "world_empty = \<lparr>cache = \<lparr>client = Some redis_empty, default_ttl = 300\<rparr>, trace = []\<rparr>"

definition user_readonly :: user where
  "user_readonly =
    [(py ''id'', py ''user456''), (py ''name'', py ''Unauthorized User''),
     (py ''role'', py ''readonly'')]"

section \<open>Callers, databases and instances used in the statements\<close>

text \<open>
  The instance of \<^verbatim>\<open>ClientNotesFunction\<close> (its \<^verbatim>\<open>FUNCTION_NAME\<close> is \<^verbatim>\<open>get_client_notes\<close>) with the
  default \<^verbatim>\<open>MAX_QUERY_ROWS\<close>, a support caller, a database whose every query returns no row,
  a database that refuses every connection, the printable code points of Latin-1 from 128
  on, and a server that holds a count of 1000 for
  the administrator of the tests and of 7 for each of the two other callers.
\<close>

definition notes_function :: base_client_function where
  "notes_function = \<lparr>FUNCTION_NAME = py ''get_client_notes'', max_rows = 1000\<rparr>"

definition user_admin :: user where
  "user_admin =
    [(py ''id'', py ''user123''), (py ''name'', py ''Test User''), (py ''role'', py ''admin'')]"

definition user_support :: user where
  "user_support =
    [(py ''id'', py ''user789''), (py ''name'', py ''Support User''),
     (py ''role'', py ''support'')]"

definition db_no_rows :: database where
  "db_no_rows rowcount query params = Rows []"

definition db_refusing :: database where
  "db_refusing rowcount query params =
    ConnectFailed (Exception (py ''OperationalError'')
      (py ''08001 Login failed for user sa on server SQLPROD01''))"

definition notes_sql :: pystr where
  "notes_sql = py ''SELECT TOP (?) * FROM dbo.notes WHERE client_id = ?''"

definition printable_latin1 :: "nat \<Rightarrow> bool" where
  "printable_latin1 c = (161 \<le> c \<and> c \<le> 255 \<and> c \<noteq> 173)"

definition env_no_rows :: environment where
  "env_no_rows =
    \<lparr>database = db_no_rows, row_level_security = True, notes_query = Some notes_sql,
     isprintable = printable_latin1\<rparr>"

definition env_refusing :: environment where
  "env_refusing =
    \<lparr>database = db_refusing, row_level_security = True, notes_query = Some notes_sql,
     isprintable = printable_latin1\<rparr>"

definition redis_counting :: redis where
  "redis_counting =
    \<lparr>entries = [(py ''rate_limit:user123'', PInt 1000, Some 4000),
                (py ''rate_limit:user456'', PInt 7, Some 4000),
                (py ''rate_limit:user789'', PInt 7, Some 4000)],
     clock = 1000, outage = None, matches = no_match\<rparr>"

definition world_counting :: world where
  "world_counting = \<lparr>cache = \<lparr>client = Some redis_counting, default_ttl = 300\<rparr>, trace = []\<rparr>"

section \<open>hashlib.md5\<close>

text \<open>
  The MD5 digest of a byte string (RFC 1321), as \<^verbatim>\<open>hashlib.md5(data).hexdigest()\<close> computes
  it. Bytes are integers from 0 to 255; the state is four 32-bit words.
\<close>

definition md5_shifts :: "nat list" where
  "md5_shifts =
    [7, 12, 17, 22, 7, 12, 17, 22, 7, 12, 17, 22, 7, 12, 17, 22,
     5, 9, 14, 20, 5, 9, 14, 20, 5, 9, 14, 20, 5, 9, 14, 20,
     4, 11, 16, 23, 4, 11, 16, 23, 4, 11, 16, 23, 4, 11, 16, 23,
     6, 10, 15, 21, 6, 10, 15, 21, 6, 10, 15, 21, 6, 10, 15, 21]"

definition md5_sines :: "32 word list" where
  "md5_sines =
    [0xd76aa478, 0xe8c7b756, 0x242070db, 0xc1bdceee,
     0xf57c0faf, 0x4787c62a, 0xa8304613, 0xfd469501,
     0x698098d8, 0x8b44f7af, 0xffff5bb1, 0x895cd7be,
     0x6b901122, 0xfd987193, 0xa679438e, 0x49b40821,
     0xf61e2562, 0xc040b340, 0x265e5a51, 0xe9b6c7aa,
     0xd62f105d, 0x02441453, 0xd8a1e681, 0xe7d3fbc8,
     0x21e1cde6, 0xc33707d6, 0xf4d50d87, 0x455a14ed,
     0xa9e3e905, 0xfcefa3f8, 0x676f02d9, 0x8d2a4c8a,
     0xfffa3942, 0x8771f681, 0x6d9d6122, 0xfde5380c,
     0xa4beea44, 0x4bdecfa9, 0xf6bb4b60, 0xbebfbc70,
     0x289b7ec6, 0xeaa127fa, 0xd4ef3085, 0x04881d05,
     0xd9d4d039, 0xe6db99e5, 0x1fa27cf8, 0xc4ac5665,
     0xf4292244, 0x432aff97, 0xab9423a7, 0xfc93a039,
     0x655b59c3, 0x8f0ccc92, 0xffeff47d, 0x85845dd1,
     0x6fa87e4f, 0xfe2ce6e0, 0xa3014314, 0x4e0811a1,
     0xf7537e82, 0xbd3af235, 0x2ad7d2bb, 0xeb86d391]"

definition rotl32 :: "32 word \<Rightarrow> nat \<Rightarrow> 32 word" where
  "rotl32 x n = (push_bit n x) OR (drop_bit (32 - n) x)"

text \<open>The \<open>n\<close> low bytes of an integer, lowest first, and the word made of four such bytes.\<close>

fun le_bytes :: "nat \<Rightarrow> int \<Rightarrow> int list" where
  "le_bytes 0 x = []"
| "le_bytes (Suc n) x = x mod 256 # le_bytes n (x div 256)"

definition le_word :: "int list \<Rightarrow> 32 word" where
  "le_word bs = word_of_int (foldr (\<lambda>b acc. b + 256 * acc) bs 0)"

text \<open>The message followed by the bit 1, zero bits, and its length in bits (64 bits).\<close>

definition md5_pad :: "int list \<Rightarrow> int list" where
  "md5_pad msg =
    msg @ [128] @ replicate ((119 - length msg mod 64) mod 64) 0
    @ le_bytes 8 ((8 * int (length msg)) mod 2 ^ 64)"

fun chunks :: "nat \<Rightarrow> nat \<Rightarrow> 'a list \<Rightarrow> 'a list list" where
  "chunks 0 n xs = []"
| "chunks (Suc k) n xs = take n xs # chunks k n (drop n xs)"

text \<open>One of the 64 operations on the state \<open>(A, B, C, D)\<close> with the 16 words \<open>m\<close> of the block.\<close>

definition md5_step :: "32 word list \<Rightarrow> 32 word \<times> 32 word \<times> 32 word \<times> 32 word \<Rightarrow> nat
    \<Rightarrow> 32 word \<times> 32 word \<times> 32 word \<times> 32 word" where
  "md5_step m s i =
    (case s of (a, b, c, d) \<Rightarrow>
      (let f = (if i < 16 then (b AND c) OR (NOT b AND d)
                else if i < 32 then (d AND b) OR (NOT d AND c)
                else if i < 48 then b XOR c XOR d
                else c XOR (b OR NOT d));
           g = (if i < 16 then i
                else if i < 32 then (5 * i + 1) mod 16
                else if i < 48 then (3 * i + 5) mod 16
                else (7 * i) mod 16);
           f' = f + a + md5_sines ! i + m ! g
       in (d, b + rotl32 f' (md5_shifts ! i), b, c)))"

definition md5_block :: "32 word \<times> 32 word \<times> 32 word \<times> 32 word \<Rightarrow> int list
    \<Rightarrow> 32 word \<times> 32 word \<times> 32 word \<times> 32 word" where
  "md5_block s block =
    (case s of (a0, b0, c0, d0) \<Rightarrow>
      (case foldl (md5_step (map le_word (chunks 16 4 block))) s [0..<64] of
         (a, b, c, d) \<Rightarrow> (a0 + a, b0 + b, c0 + c, d0 + d)))"

definition hex_digit :: "int \<Rightarrow> nat" where
  "hex_digit n = nat (if n < 10 then 48 + n else 87 + n)"

definition hex_byte :: "int \<Rightarrow> pystr" where
  "hex_byte b = [hex_digit (b div 16), hex_digit (b mod 16)]"

definition md5_hexdigest :: "int list \<Rightarrow> pystr" where
  "md5_hexdigest msg =
    (let padded = md5_pad msg;
         s = foldl md5_block (0x67452301, 0xefcdab89, 0x98badcfe, 0x10325476)
               (chunks (length padded div 64) 64 padded)
     in case s of (a, b, c, d) \<Rightarrow>
          concat (map hex_byte (concat (map (\<lambda>w. le_bytes 4 (uint w)) [a, b, c, d]))))"

section \<open>Text forms of Python values\<close>

text \<open>\<open>n\<close> hexadecimal digits of an integer, highest first, in lower case.\<close>

fun hex_fixed :: "nat \<Rightarrow> int \<Rightarrow> pystr" where
  "hex_fixed 0 x = []"
| "hex_fixed (Suc n) x = hex_fixed n (x div 16) @ [hex_digit (x mod 16)]"

text \<open>
  \<^verbatim>\<open>repr\<close> of a string. The quote is the double quote when the string holds a single quote
  and no double quote, else the single quote. \<open>printable\<close> decides, for a code point from
  128 on, whether it stands for itself or is escaped.
\<close>

definition repr_char :: "(nat \<Rightarrow> bool) \<Rightarrow> nat \<Rightarrow> nat \<Rightarrow> pystr" where
  "repr_char printable quote c =
    (if c = quote \<or> c = 92 then [92, c]
     else if c = 9 then [92, 116]
     else if c = 10 then [92, 110]
     else if c = 13 then [92, 114]
     else if c < 32 \<or> c = 127 then [92, 120] @ hex_fixed 2 (int c)
     else if c < 127 then [c]
     else if printable c then [c]
     else if c \<le> 255 then [92, 120] @ hex_fixed 2 (int c)
     else if c \<le> 65535 then [92, 117] @ hex_fixed 4 (int c)
     else [92, 85] @ hex_fixed 8 (int c))"

definition repr_str :: "(nat \<Rightarrow> bool) \<Rightarrow> pystr \<Rightarrow> pystr" where
  "repr_str printable s =
    (let quote = (if 39 \<in> set s \<and> 34 \<notin> set s then 34 else 39)
     in [quote] @ concat (map (repr_char printable quote) s) @ [quote])"

fun join :: "pystr \<Rightarrow> pystr list \<Rightarrow> pystr" where
  "join sep [] = []"
| "join sep [x] = x"
| "join sep (x # y # ys) = x @ sep @ join sep (y # ys)"

fun repr :: "(nat \<Rightarrow> bool) \<Rightarrow> pyval \<Rightarrow> pystr" where
  "repr printable PNone = py ''None''"
| "repr printable (PInt i) = int_str i"
| "repr printable (PStr s) = repr_str printable s"
| "repr printable (PDict items) =
    py ''{'' @ join (py '', '')
      (map (\<lambda>(k, v). repr_str printable k @ py '': '' @ repr_str printable v) items) @ py ''}''"

text \<open>\<^verbatim>\<open>repr\<close> of a tuple and of a list of key-value pairs.\<close>

definition repr_tuple :: "(nat \<Rightarrow> bool) \<Rightarrow> pyval list \<Rightarrow> pystr" where
  "repr_tuple printable xs =
    (case xs of
       [x] \<Rightarrow> py ''('' @ repr printable x @ py '',)''
     | _ \<Rightarrow> py ''('' @ join (py '', '') (map (repr printable) xs) @ py '')'')"

definition repr_items :: "(nat \<Rightarrow> bool) \<Rightarrow> (pystr \<times> pyval) list \<Rightarrow> pystr" where
  "repr_items printable items =
    py ''['' @ join (py '', '')
      (map (\<lambda>(k, v). py ''('' @ repr_str printable k @ py '', '' @ repr printable v @ py '')'')
        items) @ py '']''"

text \<open>
  \<^verbatim>\<open>str.encode()\<close>: UTF-8. A surrogate, or a number that is no code point, cannot be
  encoded.
\<close>

definition utf8_char :: "nat \<Rightarrow> int list option" where
  "utf8_char c =
    (let n = int c
     in if n < 128 then Some [n]
        else if n < 2048 then Some [192 + n div 64, 128 + n mod 64]
        else if n < 65536 then
          (if 55296 \<le> n \<and> n \<le> 57343 then None
           else Some [224 + n div 4096, 128 + (n div 64) mod 64, 128 + n mod 64])
        else if n < 1114112 then
          Some [240 + n div 262144, 128 + (n div 4096) mod 64, 128 + (n div 64) mod 64,
                128 + n mod 64]
        else None)"

fun encode :: "pystr \<Rightarrow> int list option" where
  "encode [] = Some []"
| "encode (c # cs) =
    (case utf8_char c of
       None \<Rightarrow> None
     | Some bs \<Rightarrow> (case encode cs of None \<Rightarrow> None | Some rest \<Rightarrow> Some (bs @ rest)))"

section \<open>config/cache.py: the cache key\<close>

text \<open>
  \<^verbatim>\<open>generate_cache_key(*args, **kwargs)\<close>. The keyword arguments are a dictionary, so their
  names differ, and \<^verbatim>\<open>sorted(kwargs.items())\<close> orders them by name. \<open>key_data\<close> is the string
  that is hashed.
\<close>

definition key_data :: "(nat \<Rightarrow> bool) \<Rightarrow> pyval list \<Rightarrow> (pystr \<times> pyval) list \<Rightarrow> pystr" where
  "key_data printable args kwargs =
    (let sorted_kwargs = sort_key fst kwargs
     in repr_tuple printable args @ py '':'' @ repr_items printable sorted_kwargs)"

definition generate_cache_key ::
  "(nat \<Rightarrow> bool) \<Rightarrow> pyval list \<Rightarrow> (pystr \<times> pyval) list \<Rightarrow> exn + pystr" where
  "generate_cache_key printable args kwargs =
    (case encode (key_data printable args kwargs) of
       None \<Rightarrow>
         Inl (Exception (py ''UnicodeEncodeError'') (py ''surrogates not allowed''))
     | Some bytes \<Rightarrow> Inr (md5_hexdigest bytes))"

section \<open>functions/client\_notes.py\<close>

definition validation_message :: pystr where
  "validation_message = [0x274C] @ py '' Please provide a valid client ID.''"

definition access_denied_message :: pystr where
  "access_denied_message =
    [0x1F512] @ py '' Access denied. You don'' @ [39]
    @ py ''t have permission to view this client'' @ [39] @ py ''s notes.''"

definition configuration_message :: pystr where
  "configuration_message =
    [0x274C] @ py '' Query configuration missing. Please check queries.json file.''"

definition no_notes_message :: "pystr \<Rightarrow> pystr" where
  "no_notes_message client_id =
    [0x2139, 0xFE0F] @ py '' No notes found for client '' @ client_id @ py ''.''"

definition generic_error_message :: pystr where
  "generic_error_message =
    py ''I encountered an error while retrieving the data. ''
    @ py ''Please try again or contact support if the issue persists.''"

text \<open>\<^verbatim>\<open>_format_error_response\<close>: the text of the exception goes to the log only.\<close>

definition format_error_response ::
  "base_client_function \<Rightarrow> exn \<Rightarrow> world \<Rightarrow> pystr \<times> world" where
  "format_error_response self error w =
    (generic_error_message,
     emit (Log ERROR (py ''Error in '' @ FUNCTION_NAME self @ py '': '' @ exn_text error)) w)"

text \<open>
  The truth value of an argument, the name of its type, and the exception raised by
  reading an attribute it does not have.
\<close>

definition truthy :: "pyval \<Rightarrow> bool" where
  "truthy v = (v \<noteq> PNone \<and> v \<noteq> PInt 0 \<and> v \<noteq> PStr [] \<and> v \<noteq> PDict [])"

fun type_name :: "pyval \<Rightarrow> pystr" where
  "type_name PNone = py ''NoneType''"
| "type_name (PInt i) = py ''int''"
| "type_name (PStr s) = py ''str''"
| "type_name (PDict items) = py ''dict''"

definition no_attribute :: "pystr \<Rightarrow> pystr \<Rightarrow> exn" where
  "no_attribute tname attr =
    Exception (py ''AttributeError'')
      ([39] @ tname @ [39] @ py '' object has no attribute '' @ [39] @ attr @ [39])"

text \<open>The text appended to the response for one row; a missing column raises \<^verbatim>\<open>KeyError\<close>.\<close>

definition column :: "row \<Rightarrow> pystr \<Rightarrow> exn + cell" where
  "column r name =
    (case map_of r name of
       None \<Rightarrow> Inl (Exception (py ''KeyError'') ([39] @ name @ [39]))
     | Some c \<Rightarrow> Inr c)"

fun cell_str :: "cell \<Rightarrow> pystr" where
  "cell_str (Plain t s) = s"
| "cell_str (DateTime f s) = s"

definition format_row :: "row \<Rightarrow> exn + pystr" where
  "format_row r =
    (case column r (py ''created_date'') of
       Inl e \<Rightarrow> Inl e
     | Inr (Plain t s) \<Rightarrow> Inl (no_attribute t (py ''strftime''))
     | Inr (DateTime created_date s) \<Rightarrow>
    (case column r (py ''action_type'') of Inl e \<Rightarrow> Inl e | Inr action_type \<Rightarrow>
    (case column r (py ''note_text'') of Inl e \<Rightarrow> Inl e | Inr note_text \<Rightarrow>
    (case column r (py ''created_by'') of Inl e \<Rightarrow> Inl e | Inr created_by \<Rightarrow>
    (case column r (py ''status'') of Inl e \<Rightarrow> Inl e | Inr status \<Rightarrow>
       Inr (py ''**['' @ created_date @ py '']** '' @ cell_str action_type @ newline
            @ py ''_'' @ cell_str note_text @ py ''_'' @ newline
            @ py ''By: '' @ cell_str created_by @ py '' | Status: '' @ cell_str status
            @ newline @ newline))))))"

fun format_rows :: "pystr \<Rightarrow> row list \<Rightarrow> exn + pystr" where
  "format_rows response [] = Inr response"
| "format_rows response (r # rs) =
    (case format_row r of Inl e \<Rightarrow> Inl e | Inr text \<Rightarrow> format_rows (response @ text) rs)"

text \<open>
  The body of \<^verbatim>\<open>get_all_notes\<close> with its parameters bound. An exception raised outside the
  \<^verbatim>\<open>try\<close> leaves the method; one raised inside becomes the generic message.
\<close>

definition get_all_notes_body ::
  "base_client_function \<Rightarrow> environment \<Rightarrow> pyval \<Rightarrow> pyval \<Rightarrow> pyval \<Rightarrow> world
    \<Rightarrow> (exn + pystr) \<times> world" where
  "get_all_notes_body self env client_id limit usr w =
    (if \<not> truthy client_id then (Inr validation_message, w)
     else case client_id of
       PStr s \<Rightarrow>
         if str_strip s = [] then (Inr validation_message, w)
         else
           (let cid = sanitize_input (Some s)
            in case usr of
                 PDict u \<Rightarrow>
                   (case check_permissions self env u (Some cid) w of
                      (False, w1) \<Rightarrow> (Inr access_denied_message, w1)
                    | (True, w1) \<Rightarrow>
                        (case notes_query env of
                           None \<Rightarrow> (Inr configuration_message, w1)
                         | Some query \<Rightarrow>
                             if query = [] then (Inr configuration_message, w1)
                             else
                               (case execute_query self env query [limit, PStr cid] w1 of
                                  (Inl e, w2) \<Rightarrow>
                                    (case format_error_response self e w2 of
                                       (msg, w3) \<Rightarrow> (Inr msg, w3))
                                | (Inr results, w2) \<Rightarrow>
                                    if results = [] then (Inr (no_notes_message cid), w2)
                                    else
                                      (case format_rows
                                              ([0x1F4CB] @ py '' **''
                                               @ int_str (int (length results))
                                               @ py '' notes for client '' @ cid @ py '':**''
                                               @ newline @ newline) results of
                                         Inl e \<Rightarrow>
                                           (case format_error_response self e w2 of
                                              (msg, w3) \<Rightarrow> (Inr msg, w3))
                                       | Inr response \<Rightarrow> (Inr response, w2)))))
               | _ \<Rightarrow> (Inl (no_attribute (type_name usr) (py ''get'')), w))
     | _ \<Rightarrow> (Inl (no_attribute (type_name client_id) (py ''strip'')), w))"

text \<open>
  The binding of the arguments of a call to the parameters \<^verbatim>\<open>client_id\<close>, \<^verbatim>\<open>limit = 100\<close>
  and \<^verbatim>\<open>__user__ = {}\<close>. A call that does not fit the signature raises \<^verbatim>\<open>TypeError\<close>.
\<close>

definition parameters :: "pystr list" where
  "parameters = [py ''client_id'', py ''limit'', py ''__user__'']"

definition type_error :: "pystr \<Rightarrow> exn" where
  "type_error msg = Exception (py ''TypeError'') (py ''get_all_notes() '' @ msg)"

definition argument ::
  "pyval list \<Rightarrow> (pystr \<times> pyval) list \<Rightarrow> nat \<Rightarrow> pyval option" where
  "argument args kwargs i =
    (if i < length args then Some (args ! i) else map_of kwargs (parameters ! i))"

definition bind ::
  "pyval list \<Rightarrow> (pystr \<times> pyval) list \<Rightarrow> exn + (pyval \<times> pyval \<times> pyval)" where
  "bind args kwargs =
    (if 3 < length args then Inl (type_error (py ''takes from 2 to 4 positional arguments''))
     else if \<exists>k \<in> set (map fst kwargs). k \<notin> set parameters
       then Inl (type_error (py ''got an unexpected keyword argument''))
     else if \<exists>k \<in> set (map fst kwargs). k \<in> set (take (length args) parameters)
       then Inl (type_error (py ''got multiple values for argument''))
     else case argument args kwargs 0 of
       None \<Rightarrow> Inl (type_error (py ''missing 1 required positional argument''))
     | Some client_id \<Rightarrow>
         Inr (client_id,
              case argument args kwargs 1 of None \<Rightarrow> PInt 100 | Some limit \<Rightarrow> limit,
              case argument args kwargs 2 of None \<Rightarrow> PDict [] | Some usr \<Rightarrow> usr))"

definition get_all_notes_call ::
  "base_client_function \<Rightarrow> environment \<Rightarrow> pyval list \<Rightarrow> (pystr \<times> pyval) list \<Rightarrow> world
    \<Rightarrow> (exn + pystr) \<times> world" where
  "get_all_notes_call self env args kwargs w =
    (case bind args kwargs of
       Inl e \<Rightarrow> (Inl e, w)
     | Inr (client_id, limit, usr) \<Rightarrow> get_all_notes_body self env client_id limit usr w)"

section \<open>functions/base\_function.py: the caching decorator\<close>

text \<open>
  The key that the wrapper of \<^verbatim>\<open>cache_result\<close> builds for a call of the method named
  \<open>name\<close>: the keyword argument \<^verbatim>\<open>__user__\<close> is dropped, the positional arguments are kept.
\<close>

definition derive_cache_key ::
  "(nat \<Rightarrow> bool) \<Rightarrow> pystr \<Rightarrow> pyval list \<Rightarrow> (pystr \<times> pyval) list \<Rightarrow> exn + pystr" where
  "derive_cache_key printable name args kwargs =
    (let cache_kwargs = filter (\<lambda>(k, v). k \<noteq> py ''__user__'') kwargs
     in case generate_cache_key printable args cache_kwargs of
          Inl e \<Rightarrow> Inl e
        | Inr digest \<Rightarrow> Inr (name @ py '':'' @ digest))"

text \<open>
  \<^verbatim>\<open>cache_result(ttl)\<close> around a method named \<open>name\<close>: the wrapper that replaces the method.
  Its result is what the cache holds on a hit and the method's string on a miss.
\<close>

definition cache_result ::
  "int \<Rightarrow> pystr
    \<Rightarrow> (base_client_function \<Rightarrow> environment \<Rightarrow> pyval list \<Rightarrow> (pystr \<times> pyval) list \<Rightarrow> world
          \<Rightarrow> (exn + pystr) \<times> world)
    \<Rightarrow> base_client_function \<Rightarrow> environment \<Rightarrow> pyval list \<Rightarrow> (pystr \<times> pyval) list \<Rightarrow> world
    \<Rightarrow> (exn + pyval) \<times> world" where
  "cache_result ttl name func self env args kwargs w =
    (case derive_cache_key (isprintable env) name args kwargs of
       Inl e \<Rightarrow> (Inl e, w)
     | Inr cache_key \<Rightarrow>
         (let cached_result = cache_get (cache w) cache_key
          in if cached_result \<noteq> PNone
             then (Inr cached_result, emit (Log INFO (py ''Cache HIT: '' @ cache_key)) w)
             else
               (case func self env args kwargs
                       (emit (Log INFO (py ''Cache MISS: '' @ cache_key)) w) of
                  (Inl e, w') \<Rightarrow> (Inl e, w')
                | (Inr result, w') \<Rightarrow>
                    (Inr (PStr result),
                     w'\<lparr>cache := snd (cache_set (cache w') cache_key (PStr result)
                                          (Some ttl))\<rparr>))))"

text \<open>
  The decorated method \<^verbatim>\<open>ClientNotesFunction.get_all_notes\<close>, and its two callers:
  \<^verbatim>\<open>execute(**kwargs)\<close> passes everything by keyword, \<^verbatim>\<open>Tools.get_all_notes\<close> passes the three
  arguments by position.
\<close>

definition get_all_notes ::
  "base_client_function \<Rightarrow> environment \<Rightarrow> pyval list \<Rightarrow> (pystr \<times> pyval) list \<Rightarrow> world
    \<Rightarrow> (exn + pyval) \<times> world" where
  "get_all_notes = cache_result 300 (py ''get_all_notes'') get_all_notes_call"

definition execute ::
  "base_client_function \<Rightarrow> environment \<Rightarrow> (pystr \<times> pyval) list \<Rightarrow> world
    \<Rightarrow> (exn + pyval) \<times> world" where
  "execute self env kwargs w = get_all_notes self env [] kwargs w"

definition Tools_get_all_notes ::
  "base_client_function \<Rightarrow> environment \<Rightarrow> pyval \<Rightarrow> pyval \<Rightarrow> pyval \<Rightarrow> world
    \<Rightarrow> (exn + pyval) \<times> world" where
  "Tools_get_all_notes self env client_id limit usr w =
    get_all_notes self env [client_id, limit, usr] [] w"

section \<open>Calls of get\_all\_notes used in the statements\<close>

text \<open>
  A database that answers every query with one note, the response built from that note,
  the cache key of the call \<^verbatim>\<open>get_all_notes('CLIENT123', __user__=...)\<close> of the tests, and the
  queries among the effects of a world.
\<close>

definition note_row :: row where
  "note_row =
    [(py ''note_id'', Plain (py ''int'') (py ''1'')),
     (py ''action_type'', Plain (py ''str'') (py ''Call'')),
     (py ''note_text'', Plain (py ''str'') (py ''Called client'')),
     (py ''created_by'', Plain (py ''str'') (py ''John Doe'')),
     (py ''created_date'', DateTime (py ''2025-01-15 10:00'') (py ''2025-01-15 10:00:00'')),
     (py ''status'', Plain (py ''str'') (py ''completed''))]"

definition db_one_note :: database where
  "db_one_note rowcount query params = Rows [note_row]"

definition env_notes :: environment where
  "env_notes =
    \<lparr>database = db_one_note, row_level_security = True, notes_query = Some notes_sql,
     isprintable = printable_latin1\<rparr>"

definition notes_response :: pystr where
  "notes_response =
    [0x1F4CB] @ py '' **1 notes for client CLIENT123:**'' @ newline @ newline
    @ py ''**[2025-01-15 10:00]** Call'' @ newline
    @ py ''_Called client_'' @ newline
    @ py ''By: John Doe | Status: completed'' @ newline @ newline"

definition notes_key :: pystr where
  "notes_key = py ''get_all_notes:b7f16b97101a2f42ae5441025a0409ec''"

fun queries :: "event list \<Rightarrow> (pystr \<times> pyval list) list" where
  "queries [] = []"
| "queries (Sql q ps # es) = (q, ps) # queries es"
| "queries (e # es) = queries es"

definition cache_up :: "cache_config \<Rightarrow> bool" where
  "cache_up c = (case client c of None \<Rightarrow> False | Some r \<Rightarrow> outage r = None)"

section \<open>Function-level authorization\<close>

lemmas role_defs =
  Role_ADMIN_def Role_SALES_def Role_SUPPORT_def Role_FINANCE_def Role_READONLY_def




section \<open>Input sanitizing\<close>

lemma set_str_remove: "set (str_remove old s) \<subseteq> set s"
proof (induction old s rule: str_remove.induct)
  case (1 old)
  show ?case by simp
next
  case (2 old c cs)
  show ?case
  proof (cases "old \<noteq> [] \<and> take (length old) (c # cs) = old")
    case True
    with 2 have "set (str_remove old (c # cs)) \<subseteq> set (drop (length old) (c # cs))"
      by simp
    also have "\<dots> \<subseteq> set (c # cs)" by (rule set_drop_subset)
    finally show ?thesis .
  next
    case False
    with 2 show ?thesis by auto
  qed
qed

lemma str_remove_single: "c \<notin> set (str_remove [c] s)"
  by (induction "[c]" s rule: str_remove.induct) (auto split: if_splits)

lemma set_foldl_remove: "set (foldl (\<lambda>sanitized char. str_remove char sanitized) s ps) \<subseteq> set s"
proof (induction ps arbitrary: s)
  case Nil show ?case by simp
next
  case (Cons p ps)
  have "set (foldl (\<lambda>sanitized char. str_remove char sanitized) (str_remove p s) ps) \<subseteq> set (str_remove p s)"
    by (rule Cons.IH)
  also have "\<dots> \<subseteq> set s" by (rule set_str_remove)
  finally show ?case by simp
qed

lemma set_str_strip: "set (str_strip s) \<subseteq> set s"
proof -
  have "set (str_strip s) \<subseteq> set (dropWhile py_isspace s)"
    unfolding str_strip_def by (auto dest: set_dropWhileD)
  also have "\<dots> \<subseteq> set s" by (auto dest: set_dropWhileD)
  finally show ?thesis .
qed

lemma takeWhile_dropWhile_nil: "takeWhile P (dropWhile P xs) = []"
  by (induction xs) auto

lemma strip_trail: "takeWhile py_isspace (rev (str_strip s)) = []"
  by (simp add: str_strip_def takeWhile_dropWhile_nil)

lemma takeWhile_strip_nil:
  "takeWhile P (rev (dropWhile P (rev (dropWhile P xs)))) = []"
proof (cases "dropWhile P xs")
  case Nil
  show ?thesis unfolding Nil by simp
next
  case (Cons y ys)
  then have ny: "\<not> P y" using hd_dropWhile [of P xs] by simp
  have "\<exists>zs. rev (dropWhile P (rev (y # ys))) = y # zs"
  proof -
    have "dropWhile P (rev ys @ [y]) = dropWhile P (rev ys) @ [y]"
      using ny by (simp add: dropWhile_append3)
    then show ?thesis by simp
  qed
  then obtain zs where "rev (dropWhile P (rev (y # ys))) = y # zs" by blast
  with Cons ny show ?thesis by simp
qed

lemma strip_lead: "takeWhile py_isspace (str_strip s) = []"
  by (simp add: str_strip_def takeWhile_strip_nil)

text \<open>
  C10. For every input, the sanitized string holds no semicolon and neither starts nor ends
  with a whitespace character; for \<^verbatim>\<open>None\<close> and for the empty string it is the empty
  string. The other dangerous substrings can survive: removing \<^verbatim>\<open>xp_\<close> from \<^verbatim>\<open>-xp_-\<close> leaves
  \<^verbatim>\<open>--\<close>, which was searched for earlier and is not searched for again.
\<close>

theorem sanitize_input_guarantees:
  "of_char CHR '';'' \<notin> set (sanitize_input inp)
   \<and> takeWhile py_isspace (sanitize_input inp) = []
   \<and> takeWhile py_isspace (rev (sanitize_input inp)) = []
   \<and> sanitize_input None = []
   \<and> sanitize_input (Some []) = []
   \<and> sanitize_input (Some (py ''-xp_-'')) = py ''--''"
proof -
  have semi: "of_char CHR '';'' \<notin> set (sanitize_input inp)"
  proof (cases inp)
    case None
    then show ?thesis by (simp add: sanitize_input_def)
  next
    case (Some v)
    let ?rest = "[py ''--'', py ''/*'', py ''*/'', py ''xp_'', py ''sp_'']"
    let ?f = "\<lambda>sanitized char. str_remove char sanitized"
    have "set (str_strip (foldl ?f v dangerous))
        \<subseteq> set (foldl ?f (str_remove (py '';'') v) ?rest)"
      using set_str_strip by (simp add: dangerous_def)
    also have "\<dots> \<subseteq> set (str_remove (py '';'') v)"
      by (rule set_foldl_remove)
    finally have "set (str_strip (foldl ?f v dangerous)) \<subseteq> set (str_remove [of_char CHR '';''] v)"
      by (simp add: py_def)
    with str_remove_single [of "of_char CHR '';''" v]
    have "of_char CHR '';'' \<notin> set (str_strip (foldl ?f v dangerous))" by blast
    with Some show ?thesis by (simp add: sanitize_input_def)
  qed
  have lead: "takeWhile py_isspace (sanitize_input inp) = []"
    by (simp add: sanitize_input_def strip_lead split: option.split)
  have trail: "takeWhile py_isspace (rev (sanitize_input inp)) = []"
    by (simp add: sanitize_input_def strip_trail split: option.split)
  have ex: "sanitize_input (Some (py ''-xp_-'')) = py ''--''"
    by (simp add: sanitize_input_def dangerous_def py_def str_strip_def py_isspace_def)
  from semi lead trail ex show ?thesis by (simp add: sanitize_input_def)
qed

section \<open>The cache while its server is down\<close>

lemma get_rate_limit_pos: "100 \<le> get_rate_limit role"
  by (simp add: get_rate_limit_def RATE_LIMITS_def split: option.split)

lemma check_rate_limit_down:
  assumes "cache_down (cache w)"
  shows "check_rate_limit u w = (True, w)"
proof -
  have inc: "increment (cache w) k 1 = (0, cache w)" for k
    using assms by (auto simp: cache_down_def increment_def redis_incr_def split: option.splits)
  have "\<not> get_rate_limit role < 0" for role
    using get_rate_limit_pos [of role] by simp
  then show ?thesis
    by (simp add: check_rate_limit_def Let_def inc)
qed

text \<open>
  C8. While the cache is down (no client was created at start-up, or the server cannot be
  reached when the command is sent), no cache operation raises and each returns its inert
  default, leaving the cache object as it was: \<^verbatim>\<open>get\<close> gives \<^verbatim>\<open>None\<close>, \<^verbatim>\<open>set\<close> gives false,
  \<^verbatim>\<open>increment\<close> gives 0, \<^verbatim>\<open>expire\<close> gives false, \<^verbatim>\<open>delete\<close> gives false and \<^verbatim>\<open>clear_pattern\<close>
  gives 0. The rate-limit check then passes for every caller, so rate limiting is not
  enforced.
\<close>

theorem cache_outage_inert:
  assumes "cache_down c"
  shows "cache_get c key = PNone
    \<and> cache_set c key v ttl = (False, c)
    \<and> increment c key amount = (0, c)
    \<and> expire c key seconds = (False, c)
    \<and> cache_delete c key = (False, c)
    \<and> clear_pattern c pattern = (0, c)
    \<and> (cache w = c \<longrightarrow> check_rate_limit u w = (True, w))"
proof (cases "client c")
  case None
  then show ?thesis
    using check_rate_limit_down [of w u] assms
    by (simp add: cache_get_def cache_set_def increment_def expire_def cache_delete_def
        clear_pattern_def)
next
  case (Some r)
  with assms obtain msg where "outage r = Some msg"
    by (auto simp: cache_down_def)
  with Some show ?thesis
    using check_rate_limit_down [of w u] assms
    by (simp add: cache_get_def cache_set_def increment_def expire_def cache_delete_def
        clear_pattern_def redis_get_def redis_setex_def redis_incr_def redis_expire_def
        redis_delete_def redis_keys_def Let_def)
qed

theorem cache_outage_inert_witness:
  "create_client redis_unreachable = None
   \<and> cache_get \<lparr>client = None, default_ttl = 300\<rparr> (py ''k'') = PNone
   \<and> cache_set \<lparr>client = None, default_ttl = 300\<rparr> (py ''k'') (PStr (py ''v'')) (Some 300)
       = (False, \<lparr>client = None, default_ttl = 300\<rparr>)
   \<and> cache_get \<lparr>client = Some redis_unreachable, default_ttl = 300\<rparr> (py ''rate_limit:user123'') = PNone
   \<and> increment \<lparr>client = Some redis_unreachable, default_ttl = 300\<rparr> (py ''rate_limit:user123'') 1
       = (0, \<lparr>client = Some redis_unreachable, default_ttl = 300\<rparr>)
   \<and> expire \<lparr>client = Some redis_unreachable, default_ttl = 300\<rparr> (py ''rate_limit:user123'') 3600
       = (False, \<lparr>client = Some redis_unreachable, default_ttl = 300\<rparr>)"
proof -
  have d1: "cache_down \<lparr>client = None, default_ttl = 300\<rparr>"
    by (simp add: cache_down_def)
  have d2: "cache_down \<lparr>client = Some redis_unreachable, default_ttl = 300\<rparr>"
    by (simp add: cache_down_def redis_unreachable_def)
  have "create_client redis_unreachable = None"
    by (simp add: create_client_def redis_unreachable_def)
  with cache_outage_inert [OF d1] cache_outage_inert [OF d2] show ?thesis
    by blast
qed

section \<open>Rate limiting\<close>

lemma lookup_store_same:
  "lookup (store r k e) k = (if alive r (snd e) then Some e else None)"
  by (cases e) (simp add: lookup_def store_def alive_def split: option.split)

lemma store_fields [simp]:
  "outage (store r k e) = outage r" "clock (store r k e) = clock r"
  "map_of (entries (store r k e)) k = Some e"
  by (simp_all add: store_def)

lemma advance_fields [simp]:
  "outage (advance d r) = outage r" "clock (advance d r) = clock r + d"
  "entries (advance d r) = entries r"
  by (simp_all add: advance_def)

lemma check_rate_limit_fresh:
  assumes "client (cache w) = Some r" "outage r = None" "lookup r (rate_key u) = None"
  shows "check_rate_limit u w =
    (True, w\<lparr>cache := (cache w)\<lparr>client :=
       Some (store (store r (rate_key u) (PInt 1, None)) (rate_key u)
               (PInt 1, Some (clock r + 3600)))\<rparr>\<rparr>)"
proof -
  let ?k = "rate_key u"
  let ?r1 = "store r ?k (PInt 1, None)"
  have inc: "increment (cache w) ?k 1 = (1, (cache w)\<lparr>client := Some ?r1\<rparr>)"
    using assms by (simp add: increment_def redis_incr_def)
  have "lookup ?r1 ?k = Some (PInt 1, None)"
    by (simp add: lookup_store_same alive_def)
  then have ex: "expire ((cache w)\<lparr>client := Some ?r1\<rparr>) ?k 3600 =
      (True, (cache w)\<lparr>client := Some (store ?r1 ?k (PInt 1, Some (clock r + 3600)))\<rparr>)"
    using assms by (simp add: expire_def redis_expire_def)
  have "\<not> get_rate_limit (user_get u (py ''role'') []) < 1"
    using get_rate_limit_pos [of "user_get u (py ''role'') []"] by simp
  then show ?thesis
    using inc ex by (simp add: check_rate_limit_def Let_def rate_key_def [symmetric])
qed

lemma check_rate_limit_counting:
  assumes "client (cache w) = Some r" "outage r = None"
    "map_of (entries r) (rate_key u) = Some (PInt n, Some t)" "clock r < t"
    "1 \<le> n" "n + 1 < 2 ^ 63"
  shows "check_rate_limit u w =
    (n + 1 \<le> get_rate_limit (user_get u (py ''role'') []),
     w\<lparr>cache := (cache w)\<lparr>client := Some (store r (rate_key u) (PInt (n + 1), Some t))\<rparr>\<rparr>)"
proof -
  let ?k = "rate_key u"
  have lk: "lookup r ?k = Some (PInt n, Some t)"
    using assms by (simp add: lookup_def alive_def)
  have inc: "increment (cache w) ?k 1 =
      (n + 1, (cache w)\<lparr>client := Some (store r ?k (PInt (n + 1), Some t))\<rparr>)"
    using assms lk by (simp add: increment_def redis_incr_def)
  from assms have "n + 1 \<noteq> 1" by simp
  then show ?thesis
    using inc by (simp add: check_rate_limit_def Let_def rate_key_def [symmetric] not_less)
qed






section \<open>Row-level authorization\<close>

lemma cache_emit [simp]: "cache (emit e w) = cache w"
  by (simp add: emit_def)

lemma execute_query_cache [simp]: "cache (snd (execute_query self env q ps w)) = cache w"
  by (simp add: execute_query_def track_performance_def execute_query_body_def
      split: db_outcome.split)

lemma execute_query_result:
  "fst (execute_query self env q ps w) =
    (case database env (max_rows self) q ps of
       Rows rs \<Rightarrow> Inr rs | ConnectFailed e \<Rightarrow> Inl unable_to_retrieve
     | QueryFailed e \<Rightarrow> Inl unable_to_retrieve)"
  by (simp add: execute_query_def track_performance_def execute_query_body_def
      split: db_outcome.split)

lemma can_access_client_cache [simp]:
  "cache (snd (can_access_client self env u cid w)) = cache w"
proof -
  have "cache (snd (case execute_query self env q ps w of
          (Inr results, w') \<Rightarrow> (0 < length results, w')
        | (Inl e, w') \<Rightarrow> (False, emit (Log ERROR (msg e)) w'))) = cache w" for q ps msg
    using execute_query_cache [of self env q ps w]
    by (cases "execute_query self env q ps w") (auto split: sum.split)
  then show ?thesis
    by (simp add: can_access_client_def Let_def)
qed

lemma can_access_client_result:
  assumes "\<not> can_view_all_clients (user_get u (py ''role'') [])"
  shows "fst (can_access_client self env u cid w) =
    (case database env (max_rows self) access_query
            [case map_of u (py ''id'') of None \<Rightarrow> PNone | Some i \<Rightarrow> PStr i, PStr cid] of
       Rows rs \<Rightarrow> rs \<noteq> [] | ConnectFailed e \<Rightarrow> False | QueryFailed e \<Rightarrow> False)"
proof -
  let ?ps = "[case map_of u (py ''id'') of None \<Rightarrow> PNone | Some i \<Rightarrow> PStr i, PStr cid]"
  obtain res w' where ex: "execute_query self env access_query ?ps w = (res, w')"
    by (cases "execute_query self env access_query ?ps w")
  then have "res = (case database env (max_rows self) access_query ?ps of
       Rows rs \<Rightarrow> Inr rs | ConnectFailed e \<Rightarrow> Inl unable_to_retrieve
     | QueryFailed e \<Rightarrow> Inl unable_to_retrieve)"
    using execute_query_result [of self env access_query ?ps w] by simp
  with assms ex show ?thesis
    by (simp add: can_access_client_def Let_def split: db_outcome.split)
qed

lemma check_rate_limit_cache_only:
  assumes "cache w1 = cache w2"
  shows "fst (check_rate_limit u w1) = fst (check_rate_limit u w2)"
    and "cache (snd (check_rate_limit u w1)) = cache (snd (check_rate_limit u w2))"
  using assms by (simp_all add: check_rate_limit_def Let_def split_beta)

lemma rate_limit_stage_cache:
  "cache (snd (rate_limit_stage u w)) = cache (snd (check_rate_limit u w))"
  "fst (rate_limit_stage u w) = fst (check_rate_limit u w)"
  by (cases "check_rate_limit u w"; cases "fst (check_rate_limit u w)";
      simp add: rate_limit_stage_def)+



section \<open>The counter of a refused call\<close>

lemma check_permissions_function_denied:
  assumes "\<not> can_access_function (user_get u (py ''role'') []) (FUNCTION_NAME self)"
  shows "\<not> fst (check_permissions self env u cid w)"
    and "cache (snd (check_permissions self env u cid w)) = cache w"
  using assms by (simp_all add: check_permissions_def Let_def)

lemma check_permissions_row_denied:
  assumes "can_access_function (user_get u (py ''role'') []) (FUNCTION_NAME self)"
    "c \<noteq> []" "row_level_security env" "\<not> fst (can_access_client self env u c w)"
  shows "\<not> fst (check_permissions self env u (Some c) w)"
    and "cache (snd (check_permissions self env u (Some c) w)) = cache w"
proof -
  obtain b w' where ca: "can_access_client self env u c w = (b, w')"
    by (cases "can_access_client self env u c w")
  with assms(4) have b: "\<not> b" by simp
  have "cache w' = cache w"
    using can_access_client_cache [of self env u c w] ca by simp
  with assms ca b show "\<not> fst (check_permissions self env u (Some c) w)"
    and "cache (snd (check_permissions self env u (Some c) w)) = cache w"
    by (simp_all add: check_permissions_def Let_def)
qed

lemma check_permissions_rate_stage:
  assumes "can_access_function (user_get u (py ''role'') []) (FUNCTION_NAME self)"
    "cid = None \<or> cid = Some [] \<or> \<not> row_level_security env
      \<or> (\<exists>c. cid = Some c \<and> fst (can_access_client self env u c w))"
  shows "fst (check_permissions self env u cid w) = fst (check_rate_limit u w)"
    and "cache (snd (check_permissions self env u cid w)) = cache (snd (check_rate_limit u w))"
proof -
  have direct: "fst (rate_limit_stage u w) = fst (check_rate_limit u w)
      \<and> cache (snd (rate_limit_stage u w)) = cache (snd (check_rate_limit u w))"
    by (simp add: rate_limit_stage_cache)
  have after: "fst (rate_limit_stage u w') = fst (check_rate_limit u w)
      \<and> cache (snd (rate_limit_stage u w')) = cache (snd (check_rate_limit u w))"
    if "cache w' = cache w" for w'
    using check_rate_limit_cache_only [OF that, of u] by (simp add: rate_limit_stage_cache)
  have both: "fst (check_permissions self env u cid w) = fst (check_rate_limit u w)
      \<and> cache (snd (check_permissions self env u cid w)) = cache (snd (check_rate_limit u w))"
  proof (cases cid)
    case None
    with assms(1) direct show ?thesis by (simp add: check_permissions_def Let_def)
  next
    case (Some c)
    show ?thesis
    proof (cases "c \<noteq> [] \<and> row_level_security env")
      case False
      with Some assms(1) direct show ?thesis
        by (auto simp: check_permissions_def Let_def)
    next
      case True
      with Some assms(2) have ok: "fst (can_access_client self env u c w)" by auto
      obtain b w' where ca: "can_access_client self env u c w = (b, w')"
        by (cases "can_access_client self env u c w")
      with ok have b: "b" by simp
      have "cache w' = cache w"
        using can_access_client_cache [of self env u c w] ca by simp
      from after [OF this] Some True assms(1) ca b show ?thesis
        by (simp add: check_permissions_def Let_def)
    qed
  qed
  from both show "fst (check_permissions self env u cid w) = fst (check_rate_limit u w)"
    and "cache (snd (check_permissions self env u cid w)) = cache (snd (check_rate_limit u w))"
    by simp_all
qed

text \<open>
  C9, as stated, fails: a call refused by the function-level check (a read-only caller) or
  by the row-level check (a support caller without a mapping row) leaves the caller's
  counter at the value it had, 7, instead of incrementing it.
\<close>

theorem authorization_denial_counter_counterexample:
  "\<not> fst (check_permissions notes_function env_no_rows user_readonly (Some (py ''CLIENT123''))
        world_counting)
   \<and> cache_get (cache world_counting) (py ''rate_limit:user456'') = PInt 7
   \<and> cache_get (cache (snd (check_permissions notes_function env_no_rows user_readonly
        (Some (py ''CLIENT123'')) world_counting))) (py ''rate_limit:user456'') = PInt 7
   \<and> \<not> fst (check_permissions notes_function env_no_rows user_support (Some (py ''CLIENT123''))
        world_counting)
   \<and> cache_get (cache world_counting) (py ''rate_limit:user789'') = PInt 7
   \<and> cache_get (cache (snd (check_permissions notes_function env_no_rows user_support
        (Some (py ''CLIENT123'')) world_counting))) (py ''rate_limit:user789'') = PInt 7"
proof -
  have ro: "user_get user_readonly (py ''role'') [] = Role_READONLY"
    by (simp add: user_get_def user_readonly_def Role_READONLY_def py_def)
  have su: "user_get user_support (py ''role'') [] = Role_SUPPORT"
    by (simp add: user_get_def user_support_def Role_SUPPORT_def py_def)
  have f1: "\<not> can_access_function (user_get user_readonly (py ''role'') [])
      (FUNCTION_NAME notes_function)"
    unfolding ro
    by (simp add: can_access_function_def allowed_roles_def FUNCTION_PERMISSIONS_def
        notes_function_def role_defs py_def)
  have f2: "can_access_function (user_get user_support (py ''role'') [])
      (FUNCTION_NAME notes_function)"
    unfolding su
    by (simp add: can_access_function_def allowed_roles_def FUNCTION_PERMISSIONS_def
        notes_function_def py_def)
  have v2: "\<not> can_view_all_clients (user_get user_support (py ''role'') [])"
    unfolding su by (simp add: can_view_all_clients_def DATA_ACCESS_def role_defs py_def)
  have r2: "\<not> fst (can_access_client notes_function env_no_rows user_support (py ''CLIENT123'')
      world_counting)"
    using can_access_client_result [OF v2, of notes_function env_no_rows "py ''CLIENT123''"
        world_counting]
    by (simp add: env_no_rows_def db_no_rows_def)
  have c: "py ''CLIENT123'' \<noteq> []" by (simp add: py_def)
  have e: "row_level_security env_no_rows" by (simp add: env_no_rows_def)
  have g1: "cache_get (cache world_counting) (py ''rate_limit:user456'') = PInt 7"
    by (simp add: cache_get_def world_counting_def redis_counting_def redis_get_def
        lookup_def alive_def py_def)
  have g2: "cache_get (cache world_counting) (py ''rate_limit:user789'') = PInt 7"
    by (simp add: cache_get_def world_counting_def redis_counting_def redis_get_def
        lookup_def alive_def py_def)
  from check_permissions_function_denied [OF f1, of env_no_rows "Some (py ''CLIENT123'')" world_counting]
    check_permissions_row_denied [OF f2 c e r2] g1 g2
  show ?thesis by simp
qed

text \<open>
  C9, amended. A call refused by the function-level or by the row-level check returns
  before the rate-limit check and leaves the cache, and so the caller's counter, unchanged.
  A call that passes both checks (or for which the row-level check is skipped) runs the
  rate-limit check, whose result and cache it takes over; that check increments the counter
  also when the new count exceeds the limit and the call is refused for it.
\<close>

theorem authorization_denial_keeps_counter:
  "(\<not> can_access_function (user_get u (py ''role'') []) (FUNCTION_NAME self) \<longrightarrow>
      \<not> fst (check_permissions self env u cid w)
      \<and> cache (snd (check_permissions self env u cid w)) = cache w)
   \<and> (can_access_function (user_get u (py ''role'') []) (FUNCTION_NAME self)
      \<and> c \<noteq> [] \<and> row_level_security env \<and> \<not> fst (can_access_client self env u c w) \<longrightarrow>
      \<not> fst (check_permissions self env u (Some c) w)
      \<and> cache (snd (check_permissions self env u (Some c) w)) = cache w)
   \<and> (can_access_function (user_get u (py ''role'') []) (FUNCTION_NAME self)
      \<and> (cid = None \<or> cid = Some [] \<or> \<not> row_level_security env
          \<or> (\<exists>c'. cid = Some c' \<and> fst (can_access_client self env u c' w))) \<longrightarrow>
      fst (check_permissions self env u cid w) = fst (check_rate_limit u w)
      \<and> cache (snd (check_permissions self env u cid w)) = cache (snd (check_rate_limit u w)))
   \<and> (client (cache w) = Some r \<and> outage r = None
      \<and> map_of (entries r) (rate_key u) = Some (PInt n, Some t) \<and> clock r < t
      \<and> 1 \<le> n \<and> n + 1 < 2 ^ 63 \<longrightarrow>
      fst (check_rate_limit u w) = (n + 1 \<le> get_rate_limit (user_get u (py ''role'') []))
      \<and> cache_get (cache (snd (check_rate_limit u w))) (rate_key u) = PInt (n + 1))"
proof -
  have inc: "fst (check_rate_limit u w) = (n + 1 \<le> get_rate_limit (user_get u (py ''role'') []))
      \<and> cache_get (cache (snd (check_rate_limit u w))) (rate_key u) = PInt (n + 1)"
    if "client (cache w) = Some r" "outage r = None"
      "map_of (entries r) (rate_key u) = Some (PInt n, Some t)" "clock r < t"
      "1 \<le> n" "n + 1 < 2 ^ 63"
    using check_rate_limit_counting [OF that] that
    by (simp add: cache_get_def redis_get_def lookup_store_same alive_def)
  from check_permissions_function_denied [of u self env cid w]
    check_permissions_row_denied [of u self c env w]
    check_permissions_rate_stage [of u self cid env w] inc
  show ?thesis by blast
qed


theorem authorization_denial_keeps_counter_witness:
  "cache (snd (check_permissions notes_function env_no_rows user_readonly
      (Some (py ''CLIENT123'')) world_counting)) = cache world_counting
   \<and> \<not> fst (check_permissions notes_function env_no_rows user_admin
      (Some (py ''CLIENT123'')) world_counting)
   \<and> cache_get (cache (snd (check_permissions notes_function env_no_rows user_admin
      (Some (py ''CLIENT123'')) world_counting))) (py ''rate_limit:user123'') = PInt 1001"
proof -
  have ro: "user_get user_readonly (py ''role'') [] = Role_READONLY"
    by (simp add: user_get_def user_readonly_def Role_READONLY_def py_def)
  have ad: "user_get user_admin (py ''role'') [] = Role_ADMIN"
    by (simp add: user_get_def user_admin_def Role_ADMIN_def py_def)
  have f1: "\<not> can_access_function (user_get user_readonly (py ''role'') [])
      (FUNCTION_NAME notes_function)"
    unfolding ro
    by (simp add: can_access_function_def allowed_roles_def FUNCTION_PERMISSIONS_def
        notes_function_def role_defs py_def)
  have f2: "can_access_function (user_get user_admin (py ''role'') [])
      (FUNCTION_NAME notes_function)"
    unfolding ad by (simp add: can_access_function_def)
  have a2: "fst (can_access_client notes_function env_no_rows user_admin (py ''CLIENT123'')
      world_counting)"
    unfolding can_access_client_def ad
    by (simp add: can_view_all_clients_def DATA_ACCESS_def)
  have k: "rate_key user_admin = py ''rate_limit:user123''"
    by (simp add: rate_key_def user_get_def user_admin_def py_def)
  have cl: "client (cache world_counting) = Some redis_counting"
    by (simp add: world_counting_def)
  have st: "outage redis_counting = None
      \<and> map_of (entries redis_counting) (rate_key user_admin) = Some (PInt 1000, Some 4000)
      \<and> clock redis_counting < 4000"
    unfolding k by (simp add: redis_counting_def py_def)
  have lim: "get_rate_limit (user_get user_admin (py ''role'') []) = 1000"
    unfolding ad by (simp add: get_rate_limit_def RATE_LIMITS_def)
  note t1 = authorization_denial_keeps_counter [of user_readonly notes_function env_no_rows
      "Some (py ''CLIENT123'')" world_counting]
  note t2 = authorization_denial_keeps_counter [of user_admin notes_function env_no_rows
      "Some (py ''CLIENT123'')" world_counting _ redis_counting 1000 4000]
  from t1 f1 have 1: "cache (snd (check_permissions notes_function env_no_rows user_readonly
      (Some (py ''CLIENT123'')) world_counting)) = cache world_counting" by blast
  from t2 f2 a2 have same: "fst (check_permissions notes_function env_no_rows user_admin
        (Some (py ''CLIENT123'')) world_counting) = fst (check_rate_limit user_admin world_counting)
      \<and> cache (snd (check_permissions notes_function env_no_rows user_admin
        (Some (py ''CLIENT123'')) world_counting)) = cache (snd (check_rate_limit user_admin world_counting))"
    by blast
  from t2 cl st have "fst (check_rate_limit user_admin world_counting)
        = (1000 + 1 \<le> get_rate_limit (user_get user_admin (py ''role'') []))
      \<and> cache_get (cache (snd (check_rate_limit user_admin world_counting))) (rate_key user_admin)
        = PInt (1000 + 1)"
    by simp
  with same lim k 1 show ?thesis by simp
qed

section \<open>The caching decorator and failures of the store\<close>

lemma cache_result_hit:
  assumes "derive_cache_key (isprintable env) name args kwargs = Inr k"
    "cache_get (cache w) k \<noteq> PNone"
  shows "cache_result ttl name func self env args kwargs w =
    (Inr (cache_get (cache w) k), emit (Log INFO (py ''Cache HIT: '' @ k)) w)"
  using assms by (simp add: cache_result_def Let_def)

lemma cache_result_miss:
  assumes "derive_cache_key (isprintable env) name args kwargs = Inr k"
    "cache_get (cache w) k = PNone"
    "func self env args kwargs (emit (Log INFO (py ''Cache MISS: '' @ k)) w) = (Inr r, w')"
  shows "cache_result ttl name func self env args kwargs w =
    (Inr (PStr r), w'\<lparr>cache := snd (cache_set (cache w') k (PStr r) (Some ttl))\<rparr>)"
  using assms by (simp add: cache_result_def Let_def)

lemma cache_set_then_get:
  assumes "cache_up c" "0 < ttl"
  shows "cache_get (snd (cache_set c k v (Some ttl))) k = v"
    and "cache_up (snd (cache_set c k v (Some ttl)))"
proof -
  from assms(1) obtain r where r: "client c = Some r" "outage r = None"
    by (auto simp: cache_up_def split: option.splits)
  with assms(2) have set: "cache_set c k v (Some ttl) =
      (True, c\<lparr>client := Some (store r k (v, Some (clock r + nat ttl)))\<rparr>)"
    by (simp add: cache_set_def redis_setex_def)
  from assms(2) have "clock r < clock r + nat ttl" by simp
  then have "lookup (store r k (v, Some (clock r + nat ttl))) k = Some (v, Some (clock r + nat ttl))"
    by (simp add: lookup_store_same alive_def)
  with r set show "cache_get (snd (cache_set c k v (Some ttl))) k = v"
    by (simp add: cache_get_def redis_get_def)
  from r set show "cache_up (snd (cache_set c k v (Some ttl)))"
    by (simp add: cache_up_def)
qed

lemma execute_query_failed:
  assumes "database env (max_rows self) q ps = ConnectFailed e
      \<or> database env (max_rows self) q ps = QueryFailed e"
  shows "fst (execute_query self env q ps w) = Inl unable_to_retrieve"
    and "Log ERROR (py ''Query execution failed: '' @ exn_text e)
      \<in> set (trace (snd (execute_query self env q ps w)))"
  using assms
  by (auto simp: execute_query_def track_performance_def execute_query_body_def emit_def)

lemma trace_emit [simp]: "trace (emit e w) = trace w @ [e]"
  by (simp add: emit_def)

text \<open>
  C6. When the connection or the data query fails at the store, with any exception \<open>e\<close>,
  \<^verbatim>\<open>_execute_query\<close> raises one fixed exception, \<^verbatim>\<open>_format_error_response\<close> gives one fixed
  message for every exception, and \<^verbatim>\<open>get_all_notes\<close> returns that message: the returned string
  does not depend on the text of \<open>e\<close>, which goes to the log only.
\<close>

theorem store_failure_generic_message:
  assumes "str_strip s \<noteq> []"
    "fst (check_permissions self env u (Some (sanitize_input (Some s))) w)"
    "notes_query env = Some q" "q \<noteq> []"
    "database env (max_rows self) q [limit, PStr (sanitize_input (Some s))] = ConnectFailed e
      \<or> database env (max_rows self) q [limit, PStr (sanitize_input (Some s))] = QueryFailed e"
  shows "fst (get_all_notes_body self env (PStr s) limit (PDict u) w) = Inr generic_error_message
    \<and> fst (execute_query self env q [limit, PStr (sanitize_input (Some s))] w')
        = Inl unable_to_retrieve
    \<and> fst (format_error_response self e' w') = generic_error_message
    \<and> Log ERROR (py ''Query execution failed: '' @ exn_text e)
        \<in> set (trace (snd (get_all_notes_body self env (PStr s) limit (PDict u) w)))"
proof -
  let ?cid = "sanitize_input (Some s)"
  obtain w1 where cp: "check_permissions self env u (Some ?cid) w = (True, w1)"
    using assms(2) by (cases "check_permissions self env u (Some ?cid) w") auto
  obtain r w2 where ex: "execute_query self env q [limit, PStr ?cid] w1 = (r, w2)"
    by (cases "execute_query self env q [limit, PStr ?cid] w1")
  from execute_query_failed [OF assms(5), of w1] ex
  have r: "r = Inl unable_to_retrieve"
    and lg: "Log ERROR (py ''Query execution failed: '' @ exn_text e) \<in> set (trace w2)"
    by simp_all
  from assms(1) have ne: "s \<noteq> []" by (auto simp: str_strip_def)
  have body: "get_all_notes_body self env (PStr s) limit (PDict u) w =
      (Inr generic_error_message,
       emit (Log ERROR (py ''Error in '' @ FUNCTION_NAME self @ py '': ''
               @ exn_text unable_to_retrieve)) w2)"
    using assms(1,3,4) ne cp ex r
    by (simp add: get_all_notes_body_def truthy_def Let_def format_error_response_def)
  have "fst (format_error_response self e' w') = generic_error_message"
    by (simp add: format_error_response_def)
  with body lg execute_query_failed(1) [OF assms(5), of w'] show ?thesis
    by simp
qed


lemma sanitize_client123: "sanitize_input (Some (py ''CLIENT123'')) = py ''CLIENT123''"
  by (simp add: sanitize_input_def dangerous_def py_def str_strip_def py_isspace_def)

lemma strip_client123: "str_strip (py ''CLIENT123'') \<noteq> []"
  by (simp add: py_def str_strip_def py_isspace_def)

lemma admin_role: "user_get user_admin (py ''role'') [] = Role_ADMIN"
  by (simp add: user_get_def user_admin_def Role_ADMIN_def py_def)

lemma admin_passes_fresh:
  assumes "client (cache w) = Some r" "outage r = None" "lookup r (rate_key user_admin) = None"
  shows "fst (check_permissions self env user_admin (Some cid) w)"
proof -
  have f: "can_access_function (user_get user_admin (py ''role'') []) (FUNCTION_NAME self)"
    unfolding admin_role by (simp add: can_access_function_def)
  have a: "fst (can_access_client self env user_admin c w)" for c
    unfolding can_access_client_def admin_role
    by (simp add: can_view_all_clients_def DATA_ACCESS_def)
  have "fst (check_permissions self env user_admin (Some cid) w)
      = fst (check_rate_limit user_admin w)"
    using a by (intro check_permissions_rate_stage(1) [OF f]) simp
  with check_rate_limit_fresh [OF assms] show ?thesis by simp
qed

lemma world_empty_fresh:
  "client (cache world_empty) = Some redis_empty" "outage redis_empty = None"
  "lookup redis_empty k = None"
  by (simp_all add: world_empty_def redis_empty_def lookup_def)

theorem store_failure_generic_message_witness:
  "fst (get_all_notes_body notes_function env_refusing (PStr (py ''CLIENT123'')) (PInt 100)
      (PDict user_admin) world_empty) = Inr generic_error_message
   \<and> Log ERROR (py ''Query execution failed: 08001 Login failed for user sa on server SQLPROD01'')
      \<in> set (trace (snd (get_all_notes_body notes_function env_refusing (PStr (py ''CLIENT123''))
          (PInt 100) (PDict user_admin) world_empty)))"
proof -
  have 2: "fst (check_permissions notes_function env_refusing user_admin
      (Some (sanitize_input (Some (py ''CLIENT123'')))) world_empty)"
    by (rule admin_passes_fresh [OF world_empty_fresh])
  have 3: "notes_query env_refusing = Some notes_sql" by (simp add: env_refusing_def)
  have 4: "notes_sql \<noteq> []" by (simp add: notes_sql_def py_def)
  have 5: "database env_refusing (max_rows notes_function) notes_sql
        [PInt 100, PStr (sanitize_input (Some (py ''CLIENT123'')))]
      = ConnectFailed (Exception (py ''OperationalError'')
          (py ''08001 Login failed for user sa on server SQLPROD01''))
    \<or> database env_refusing (max_rows notes_function) notes_sql
        [PInt 100, PStr (sanitize_input (Some (py ''CLIENT123'')))]
      = QueryFailed (Exception (py ''OperationalError'')
          (py ''08001 Login failed for user sa on server SQLPROD01''))"
    by (simp add: env_refusing_def db_refusing_def)
  have app: "py ''Query execution failed: '' @ py ''08001 Login failed for user sa on server SQLPROD01''
      = py ''Query execution failed: 08001 Login failed for user sa on server SQLPROD01''"
    by (simp add: py_def)
  from store_failure_generic_message [OF strip_client123 2 3 4 5]
  show ?thesis by (simp add: app)
qed

section \<open>The cache key\<close>

lemma sort_key_fst_unique:
  assumes "distinct (map fst xs)" "distinct (map fst ys)" "set xs = set ys"
  shows "sort_key fst xs = sort_key fst ys"
proof -
  let ?s = "sort_key fst xs" and ?t = "sort_key fst ys"
  have inj: "inj_on fst (set xs)" using assms(1) by (simp add: distinct_map)
  have dx: "distinct (map fst ?s)"
    using assms(1) by (simp add: distinct_map)
  have dy: "distinct (map fst ?t)"
    using assms(2) by (simp add: distinct_map)
  have "set (map fst ?s) = set (map fst ?t)"
    using assms(3) by simp
  with dx dy have keys: "map fst ?s = map fst ?t"
    by (intro sorted_distinct_set_unique) simp_all
  have "inj_on fst (set ?s \<union> set ?t)"
    using inj assms(3) by simp
  from inj_on_map_eq_map [OF this] keys show ?thesis by blast
qed

lemma generate_cache_key_order:
  assumes "distinct (map fst kw)" "distinct (map fst kw')" "set kw = set kw'"
  shows "generate_cache_key printable args kw = generate_cache_key printable args kw'"
  using sort_key_fst_unique [OF assms]
  by (simp add: generate_cache_key_def key_data_def)

lemma derive_cache_key_order:
  assumes "distinct (map fst kw)" "distinct (map fst kw')" "set kw = set kw'"
  shows "derive_cache_key printable name args kw = derive_cache_key printable name args kw'"
proof -
  let ?f = "filter (\<lambda>(k, v). k \<noteq> py ''__user__'')"
  have "distinct (map fst (?f kw))" "distinct (map fst (?f kw'))"
    using assms(1,2) by (simp_all add: distinct_map_filter)
  moreover have "set (?f kw) = set (?f kw')" using assms(3) by simp
  ultimately have "generate_cache_key printable args (?f kw)
      = generate_cache_key printable args (?f kw')"
    by (rule generate_cache_key_order)
  then show ?thesis by (simp add: derive_cache_key_def)
qed

lemma derive_cache_key_keyword_user:
  "derive_cache_key printable name args (xs @ (py ''__user__'', u1) # ys)
    = derive_cache_key printable name args (xs @ (py ''__user__'', u2) # ys)"
  by (simp add: derive_cache_key_def)

lemma tools_passes_user_by_position:
  "Tools_get_all_notes self env client_id limit usr w =
    cache_result 300 (py ''get_all_notes'') get_all_notes_call self env
      [client_id, limit, usr] [] w"
  by (simp add: Tools_get_all_notes_def get_all_notes_def)

text \<open>
  C2. The derived key is a function of the operation name and the arguments, it does not
  depend on the order of the keyword arguments, and a caller identity passed by keyword
  does not enter it (the three lemmas above). A caller identity passed by position, as
  \<^verbatim>\<open>Tools.get_all_notes\<close> passes it, does enter the key: the two calls below differ only in
  the id of the caller and derive different keys.
\<close>

theorem positional_user_changes_key:
  "derive_cache_key printable_latin1 (py ''get_all_notes'')
      [PStr (py ''C1''), PInt 100, PDict [(py ''id'', py ''u1''), (py ''role'', py ''sales'')]] []
    = Inr (py ''get_all_notes:ed3333f86fd7bb57b08446382c0ef547'')
   \<and> derive_cache_key printable_latin1 (py ''get_all_notes'')
      [PStr (py ''C1''), PInt 100, PDict [(py ''id'', py ''u2''), (py ''role'', py ''sales'')]] []
    = Inr (py ''get_all_notes:336a316206b2ea4cada5e9633dec241e'')"
proof -
  have 1: "derive_cache_key printable_latin1 (py ''get_all_notes'')
      [PStr (py ''C1''), PInt 100, PDict [(py ''id'', py ''u1''), (py ''role'', py ''sales'')]] []
    = Inr (py ''get_all_notes:ed3333f86fd7bb57b08446382c0ef547'')"
    by code_simp
  have 2: "derive_cache_key printable_latin1 (py ''get_all_notes'')
      [PStr (py ''C1''), PInt 100, PDict [(py ''id'', py ''u2''), (py ''role'', py ''sales'')]] []
    = Inr (py ''get_all_notes:336a316206b2ea4cada5e9633dec241e'')"
    by code_simp
  from 1 2 show ?thesis by (rule conjI)
qed

lemma digest_client123:
  "generate_cache_key printable_latin1 [PStr (py ''CLIENT123'')] []
    = Inr (py ''b7f16b97101a2f42ae5441025a0409ec'')"
  by code_simp

lemma name_and_digest:
  "py ''get_all_notes'' @ py '':'' @ py ''b7f16b97101a2f42ae5441025a0409ec'' = notes_key"
  by (simp add: notes_key_def py_def)

lemma key_client123:
  "isprintable env = printable_latin1 \<Longrightarrow>
    derive_cache_key (isprintable env) (py ''get_all_notes'') [PStr (py ''CLIENT123'')]
      [(py ''__user__'', u)] = Inr notes_key"
  by (simp add: derive_cache_key_def digest_client123 name_and_digest)

section \<open>Denials, the store and the cache\<close>

lemma queries_append: "queries (xs @ ys) = queries xs @ queries ys"
  by (induction xs rule: queries.induct) simp_all

lemma execute_query_queries:
  "queries (trace (snd (execute_query self env q ps w))) =
    queries (trace w) @
      (case database env (max_rows self) q ps of ConnectFailed e \<Rightarrow> [] | QueryFailed e \<Rightarrow> [(q, ps)]
       | Rows rs \<Rightarrow> [(q, ps)])"
  by (simp add: execute_query_def track_performance_def execute_query_body_def queries_append
      split: db_outcome.split)

lemma can_access_client_queries:
  "queries (trace (snd (can_access_client self env u cid w))) = queries (trace w)
   \<or> queries (trace (snd (can_access_client self env u cid w))) =
      queries (trace w) @
        [(access_query, [case map_of u (py ''id'') of None \<Rightarrow> PNone | Some i \<Rightarrow> PStr i, PStr cid])]"
proof -
  let ?ps = "[case map_of u (py ''id'') of None \<Rightarrow> PNone | Some i \<Rightarrow> PStr i, PStr cid]"
  obtain r w' where ex: "execute_query self env access_query ?ps w = (r, w')"
    by (cases "execute_query self env access_query ?ps w")
  have "queries (trace w') = queries (trace w) \<or> queries (trace w') = queries (trace w) @ [(access_query, ?ps)]"
    using execute_query_queries [of self env access_query ?ps w] ex
    by (auto split: db_outcome.splits)
  with ex show ?thesis
    by (auto simp: can_access_client_def Let_def queries_append split: sum.splits)
qed

lemma check_rate_limit_trace [simp]: "trace (snd (check_rate_limit u w)) = trace w"
  by (simp add: check_rate_limit_def Let_def split_beta)

lemma rate_limit_stage_queries [simp]:
  "queries (trace (snd (rate_limit_stage u w))) = queries (trace w)"
proof -
  obtain b w' where c: "check_rate_limit u w = (b, w')" by (cases "check_rate_limit u w")
  then have "trace w' = trace w" using check_rate_limit_trace [of u w] by simp
  with c show ?thesis by (cases b) (simp_all add: rate_limit_stage_def queries_append)
qed

lemma check_permissions_queries:
  "queries (trace (snd (check_permissions self env u (Some cid) w))) = queries (trace w)
   \<or> queries (trace (snd (check_permissions self env u (Some cid) w))) =
      queries (trace w) @
        [(access_query, [case map_of u (py ''id'') of None \<Rightarrow> PNone | Some i \<Rightarrow> PStr i, PStr cid])]"
proof (cases "can_access_function (user_get u (py ''role'') []) (FUNCTION_NAME self)
    \<and> cid \<noteq> [] \<and> row_level_security env")
  case False
  then show ?thesis
    by (auto simp: check_permissions_def Let_def queries_append)
next
  case True
  obtain b w' where ca: "can_access_client self env u cid w = (b, w')"
    by (cases "can_access_client self env u cid w")
  with can_access_client_queries [of self env u cid w]
  have q: "queries (trace w') = queries (trace w) \<or> queries (trace w') = queries (trace w) @
      [(access_query, [case map_of u (py ''id'') of None \<Rightarrow> PNone | Some i \<Rightarrow> PStr i, PStr cid])]"
    by simp
  from True ca q show ?thesis
    by (cases b) (auto simp: check_permissions_def Let_def queries_append)
qed

lemma check_permissions_function_denied_trace:
  assumes "\<not> can_access_function (user_get u (py ''role'') []) (FUNCTION_NAME self)"
  shows "queries (trace (snd (check_permissions self env u cid w))) = queries (trace w)"
  using assms by (simp add: check_permissions_def Let_def queries_append)

lemma body_validation:
  assumes "\<not> truthy c \<or> (\<exists>s. c = PStr s \<and> str_strip s = [])"
  shows "get_all_notes_body self env c limit usr w = (Inr validation_message, w)"
  using assms by (auto simp: get_all_notes_body_def)

lemma strip_nonempty: "str_strip s \<noteq> [] \<Longrightarrow> truthy (PStr s)"
  by (auto simp: truthy_def str_strip_def)

lemma body_denied:
  assumes "str_strip s \<noteq> []"
    "\<not> fst (check_permissions self env u (Some (sanitize_input (Some s))) w)"
  shows "get_all_notes_body self env (PStr s) limit (PDict u) w =
    (Inr access_denied_message, snd (check_permissions self env u (Some (sanitize_input (Some s))) w))"
proof -
  obtain b w1 where cp: "check_permissions self env u (Some (sanitize_input (Some s))) w = (b, w1)"
    by (cases "check_permissions self env u (Some (sanitize_input (Some s))) w")
  with assms(2) have "\<not> b" by simp
  with assms(1) strip_nonempty [OF assms(1)] cp show ?thesis
    by (simp add: get_all_notes_body_def Let_def)
qed

lemma wrapper_miss_message:
  assumes "derive_cache_key (isprintable env) (py ''get_all_notes'') args kwargs = Inr k"
    "cache_get (cache w) k = PNone"
    "fst (get_all_notes_call self env args kwargs (emit (Log INFO (py ''Cache MISS: '' @ k)) w))
      = Inr msg"
  shows "fst (get_all_notes self env args kwargs w) = Inr (PStr msg)"
    and "trace (snd (get_all_notes self env args kwargs w)) =
      trace (snd (get_all_notes_call self env args kwargs
        (emit (Log INFO (py ''Cache MISS: '' @ k)) w)))"
    and "cache (snd (get_all_notes self env args kwargs w)) =
      snd (cache_set (cache (snd (get_all_notes_call self env args kwargs
        (emit (Log INFO (py ''Cache MISS: '' @ k)) w)))) k (PStr msg) (Some 300))"
proof -
  obtain r w' where c: "get_all_notes_call self env args kwargs
      (emit (Log INFO (py ''Cache MISS: '' @ k)) w) = (r, w')"
    by (cases "get_all_notes_call self env args kwargs (emit (Log INFO (py ''Cache MISS: '' @ k)) w)")
  with assms(3) have r: "r = Inr msg" by simp
  from cache_result_miss [OF assms(1,2), where func = get_all_notes_call and self = self and ttl = 300] c r
  have "get_all_notes self env args kwargs w =
      (Inr (PStr msg), w'\<lparr>cache := snd (cache_set (cache w') k (PStr msg) (Some 300))\<rparr>)"
    by (simp add: get_all_notes_def)
  with c show "fst (get_all_notes self env args kwargs w) = Inr (PStr msg)"
    and "trace (snd (get_all_notes self env args kwargs w)) =
      trace (snd (get_all_notes_call self env args kwargs
        (emit (Log INFO (py ''Cache MISS: '' @ k)) w)))"
    and "cache (snd (get_all_notes self env args kwargs w)) =
      snd (cache_set (cache (snd (get_all_notes_call self env args kwargs
        (emit (Log INFO (py ''Cache MISS: '' @ k)) w)))) k (PStr msg) (Some 300))"
    by simp_all
qed


lemma can_access_client_queries_restricted:
  assumes "\<not> can_view_all_clients (user_get u (py ''role'') [])"
  shows "queries (trace (snd (can_access_client self env u cid w))) =
    queries (trace w) @
      (case database env (max_rows self) access_query
              [case map_of u (py ''id'') of None \<Rightarrow> PNone | Some i \<Rightarrow> PStr i, PStr cid] of
         ConnectFailed e \<Rightarrow> []
       | QueryFailed e \<Rightarrow>
           [(access_query, [case map_of u (py ''id'') of None \<Rightarrow> PNone | Some i \<Rightarrow> PStr i, PStr cid])]
       | Rows rs \<Rightarrow>
           [(access_query, [case map_of u (py ''id'') of None \<Rightarrow> PNone | Some i \<Rightarrow> PStr i, PStr cid])])"
proof -
  let ?ps = "[case map_of u (py ''id'') of None \<Rightarrow> PNone | Some i \<Rightarrow> PStr i, PStr cid]"
  obtain r w' where ex: "execute_query self env access_query ?ps w = (r, w')"
    by (cases "execute_query self env access_query ?ps w")
  with execute_query_queries [of self env access_query ?ps w] assms show ?thesis
    by (auto simp: can_access_client_def Let_def queries_append split: sum.splits db_outcome.splits)
qed

lemma check_permissions_row_denied_queries:
  assumes "can_access_function (user_get u (py ''role'') []) (FUNCTION_NAME self)"
    "c \<noteq> []" "row_level_security env" "\<not> fst (can_access_client self env u c w)"
  shows "queries (trace (snd (check_permissions self env u (Some c) w))) =
    queries (trace (snd (can_access_client self env u c w)))"
proof -
  obtain b w' where ca: "can_access_client self env u c w = (b, w')"
    by (cases "can_access_client self env u c w")
  with assms(4) have "\<not> b" by simp
  with assms ca show ?thesis
    by (simp add: check_permissions_def Let_def queries_append)
qed

lemma check_rate_limit_up:
  assumes "cache_up (cache w)"
  shows "cache_up (cache (snd (check_rate_limit u w)))"
proof -
  from assms obtain r where r: "client (cache w) = Some r" "outage r = None"
    by (auto simp: cache_up_def split: option.splits)
  let ?k = "py ''rate_limit:'' @ user_get u (py ''id'') (py ''unknown'')"
  obtain n c1 where inc: "increment (cache w) ?k 1 = (n, c1)"
    by (cases "increment (cache w) ?k 1")
  have up1: "cache_up c1"
    using inc r assms
    by (auto simp: increment_def redis_incr_def cache_up_def Let_def
        split: option.splits sum.splits if_splits pyval.splits prod.splits)
  have up2: "cache_up (snd (expire c1 ?k 3600))"
    using up1
    by (auto simp: expire_def redis_expire_def cache_up_def remove_def
        split: option.splits sum.splits if_splits prod.splits)
  from inc up1 up2 show ?thesis
    by (simp add: check_rate_limit_def Let_def)
qed

lemma check_permissions_up:
  assumes "cache_up (cache w)"
  shows "cache_up (cache (snd (check_permissions self env u cid w)))"
proof (cases "can_access_function (user_get u (py ''role'') []) (FUNCTION_NAME self)")
  case False
  from check_permissions_function_denied(2) [OF this] assms show ?thesis by simp
next
  case f: True
  show ?thesis
  proof (cases "\<exists>c. cid = Some c \<and> c \<noteq> [] \<and> row_level_security env
      \<and> \<not> fst (can_access_client self env u c w)")
    case True
    then obtain c where c: "cid = Some c" "c \<noteq> []" "row_level_security env"
      "\<not> fst (can_access_client self env u c w)" by blast
    from check_permissions_row_denied(2) [OF f c(2,3,4)] c(1) assms show ?thesis by simp
  next
    case False
    then have "cid = None \<or> cid = Some [] \<or> \<not> row_level_security env
      \<or> (\<exists>c. cid = Some c \<and> fst (can_access_client self env u c w))"
      by (cases cid) auto
    from check_permissions_rate_stage(2) [OF f this] check_rate_limit_up [OF assms]
    show ?thesis by simp
  qed
qed

lemma body_rows:
  assumes "str_strip s \<noteq> []"
    "fst (check_permissions self env u (Some (sanitize_input (Some s))) w)"
    "notes_query env = Some q" "q \<noteq> []"
    "database env (max_rows self) q [limit, PStr (sanitize_input (Some s))] = Rows rs" "rs \<noteq> []"
    "format_rows ([0x1F4CB] @ py '' **'' @ int_str (int (length rs)) @ py '' notes for client ''
        @ sanitize_input (Some s) @ py '':**'' @ newline @ newline) rs = Inr resp"
  shows "fst (get_all_notes_body self env (PStr s) limit (PDict u) w) = Inr resp"
    and "cache (snd (get_all_notes_body self env (PStr s) limit (PDict u) w)) =
      cache (snd (check_permissions self env u (Some (sanitize_input (Some s))) w))"
proof -
  let ?cid = "sanitize_input (Some s)"
  obtain w1 where cp: "check_permissions self env u (Some ?cid) w = (True, w1)"
    using assms(2) by (cases "check_permissions self env u (Some ?cid) w") auto
  obtain r w2 where ex: "execute_query self env q [limit, PStr ?cid] w1 = (r, w2)"
    by (cases "execute_query self env q [limit, PStr ?cid] w1")
  from execute_query_result [of self env q "[limit, PStr ?cid]" w1] ex assms(5)
  have r: "r = Inr rs" by simp
  from execute_query_cache [of self env q "[limit, PStr ?cid]" w1] ex
  have c2: "cache w2 = cache w1" by simp
  have body: "get_all_notes_body self env (PStr s) limit (PDict u) w = (Inr resp, w2)"
    using assms(1,3,4,6,7) strip_nonempty [OF assms(1)] cp ex r
    by (simp add: get_all_notes_body_def Let_def)
  from body show "fst (get_all_notes_body self env (PStr s) limit (PDict u) w) = Inr resp"
    by simp
  from body c2 cp show "cache (snd (get_all_notes_body self env (PStr s) limit (PDict u) w)) =
      cache (snd (check_permissions self env u (Some (sanitize_input (Some s))) w))"
    by simp
qed

lemma bind_test_call:
  "bind [PStr (py ''CLIENT123'')] [(py ''__user__'', PDict u)]
    = Inr (PStr (py ''CLIENT123''), PInt 100, PDict u)"
  by (simp add: bind_def argument_def parameters_def py_def)

lemma format_note_row:
  "format_rows ([0x1F4CB] @ py '' **'' @ int_str (int (length [note_row]))
      @ py '' notes for client '' @ py ''CLIENT123'' @ py '':**'' @ newline @ newline) [note_row]
    = Inr notes_response"
  by (simp add: format_row_def column_def note_row_def notes_response_def int_str_def
      digits.simps newline_def py_def)


lemma readonly_refused:
  "\<not> can_access_function (user_get user_readonly (py ''role'') []) (FUNCTION_NAME notes_function)"
proof -
  have "user_get user_readonly (py ''role'') [] = Role_READONLY"
    by (simp add: user_get_def user_readonly_def Role_READONLY_def py_def)
  then show ?thesis
    by (simp add: can_access_function_def allowed_roles_def FUNCTION_PERMISSIONS_def
        notes_function_def role_defs py_def)
qed

lemma support_row_refused:
  "can_access_function (user_get user_support (py ''role'') []) (FUNCTION_NAME notes_function)"
  "\<not> can_view_all_clients (user_get user_support (py ''role'') [])"
  "map_of user_support (py ''id'') = Some (py ''user789'')"
proof -
  have su: "user_get user_support (py ''role'') [] = Role_SUPPORT"
    by (simp add: user_get_def user_support_def Role_SUPPORT_def py_def)
  show "can_access_function (user_get user_support (py ''role'') []) (FUNCTION_NAME notes_function)"
    unfolding su
    by (simp add: can_access_function_def allowed_roles_def FUNCTION_PERMISSIONS_def
        notes_function_def py_def)
  show "\<not> can_view_all_clients (user_get user_support (py ''role'') [])"
    unfolding su by (simp add: can_view_all_clients_def DATA_ACCESS_def role_defs py_def)
  show "map_of user_support (py ''id'') = Some (py ''user789'')"
    by (simp add: user_support_def py_def)
qed

lemma world_empty_cache:
  "cache_up (cache world_empty)" "cache_get (cache world_empty) k = PNone"
  by (simp_all add: cache_up_def cache_get_def redis_get_def lookup_def world_empty_def
      redis_empty_def)

lemma world_empty_trace: "trace world_empty = []"
  by (simp add: world_empty_def)

lemma call_is_body:
  "get_all_notes_call self env [PStr (py ''CLIENT123'')] [(py ''__user__'', PDict u)] w =
    get_all_notes_body self env (PStr (py ''CLIENT123'')) (PInt 100) (PDict u) w"
  by (simp add: get_all_notes_call_def bind_test_call)

text \<open>
  C3, as stated, fails. A read-only caller's call on an empty cache is refused with the
  denial message, and the wrapper then writes that message to the cache under the key of
  the call. A support caller without a mapping row is refused too, after the lookup in the
  access mapping has been sent to the store.
\<close>

theorem denial_is_cached_counterexample:
  "fst (get_all_notes notes_function env_notes [PStr (py ''CLIENT123'')]
      [(py ''__user__'', PDict user_readonly)] world_empty) = Inr (PStr access_denied_message)
   \<and> cache_get (cache world_empty) notes_key = PNone
   \<and> cache_get (cache (snd (get_all_notes notes_function env_notes [PStr (py ''CLIENT123'')]
      [(py ''__user__'', PDict user_readonly)] world_empty))) notes_key
      = PStr access_denied_message
   \<and> fst (get_all_notes notes_function env_no_rows [PStr (py ''CLIENT123'')]
      [(py ''__user__'', PDict user_support)] world_empty) = Inr (PStr access_denied_message)
   \<and> queries (trace (snd (get_all_notes notes_function env_no_rows [PStr (py ''CLIENT123'')]
      [(py ''__user__'', PDict user_support)] world_empty)))
      = [(access_query, [PStr (py ''user789''), PStr (py ''CLIENT123'')])]"
proof -
  let ?miss = "emit (Log INFO (py ''Cache MISS: '' @ notes_key)) world_empty"
  let ?c = "py ''CLIENT123''"
  have k1: "derive_cache_key (isprintable env_notes) (py ''get_all_notes'') [PStr ?c]
      [(py ''__user__'', PDict user_readonly)] = Inr notes_key"
    by (rule key_client123) (simp add: env_notes_def)
  have k2: "derive_cache_key (isprintable env_no_rows) (py ''get_all_notes'') [PStr ?c]
      [(py ''__user__'', PDict user_support)] = Inr notes_key"
    by (rule key_client123) (simp add: env_no_rows_def)
  \<comment> \<open>the read-only caller\<close>
  have d1: "\<not> fst (check_permissions notes_function env_notes user_readonly
      (Some (sanitize_input (Some ?c))) ?miss)"
    by (rule check_permissions_function_denied(1) [OF readonly_refused])
  have c1: "cache (snd (check_permissions notes_function env_notes user_readonly
      (Some (sanitize_input (Some ?c))) ?miss)) = cache world_empty"
    using check_permissions_function_denied(2) [OF readonly_refused, of env_notes _ ?miss]
    by simp
  have b1: "get_all_notes_call notes_function env_notes [PStr ?c]
      [(py ''__user__'', PDict user_readonly)] ?miss =
      (Inr access_denied_message, snd (check_permissions notes_function env_notes user_readonly
        (Some (sanitize_input (Some ?c))) ?miss))"
    unfolding call_is_body by (rule body_denied [OF strip_client123 d1])
  then have m1: "fst (get_all_notes_call notes_function env_notes [PStr ?c]
      [(py ''__user__'', PDict user_readonly)] ?miss) = Inr access_denied_message"
    by simp
  note w1 = wrapper_miss_message [OF k1 world_empty_cache(2) m1]
  have r1: "fst (get_all_notes notes_function env_notes [PStr ?c]
      [(py ''__user__'', PDict user_readonly)] world_empty) = Inr (PStr access_denied_message)"
    by (rule w1(1))
  have "cache (snd (get_all_notes notes_function env_notes [PStr ?c]
      [(py ''__user__'', PDict user_readonly)] world_empty)) =
      snd (cache_set (cache world_empty) notes_key (PStr access_denied_message) (Some 300))"
    using w1(3) b1 c1 by simp
  then have g1: "cache_get (cache (snd (get_all_notes notes_function env_notes [PStr ?c]
      [(py ''__user__'', PDict user_readonly)] world_empty))) notes_key
      = PStr access_denied_message"
    using cache_set_then_get(1) [OF world_empty_cache(1), of 300 notes_key "PStr access_denied_message"]
    by simp
  \<comment> \<open>the support caller without a mapping row\<close>
  have e: "row_level_security env_no_rows" by (simp add: env_no_rows_def)
  have "py ''CLIENT123'' \<noteq> []" by (simp add: py_def)
  then have cne: "sanitize_input (Some ?c) \<noteq> []" by (simp add: sanitize_client123)
  have a2: "\<not> fst (can_access_client notes_function env_no_rows user_support
      (sanitize_input (Some ?c)) ?miss)"
    using can_access_client_result [OF support_row_refused(2), of notes_function env_no_rows
        "sanitize_input (Some ?c)" ?miss]
    by (simp add: env_no_rows_def db_no_rows_def)
  have d2: "\<not> fst (check_permissions notes_function env_no_rows user_support
      (Some (sanitize_input (Some ?c))) ?miss)"
    by (rule check_permissions_row_denied(1) [OF support_row_refused(1) cne e a2])
  have q2: "queries (trace (snd (check_permissions notes_function env_no_rows user_support
      (Some (sanitize_input (Some ?c))) ?miss))) =
      [(access_query, [PStr (py ''user789''), PStr ?c])]"
    using check_permissions_row_denied_queries [OF support_row_refused(1) cne e a2]
      can_access_client_queries_restricted [OF support_row_refused(2), of notes_function
        env_no_rows "sanitize_input (Some ?c)" ?miss]
    by (simp add: support_row_refused(3) sanitize_client123 env_no_rows_def db_no_rows_def
        queries_append world_empty_trace)
  have b2: "get_all_notes_call notes_function env_no_rows [PStr ?c]
      [(py ''__user__'', PDict user_support)] ?miss =
      (Inr access_denied_message, snd (check_permissions notes_function env_no_rows user_support
        (Some (sanitize_input (Some ?c))) ?miss))"
    unfolding call_is_body by (rule body_denied [OF strip_client123 d2])
  then have m2: "fst (get_all_notes_call notes_function env_no_rows [PStr ?c]
      [(py ''__user__'', PDict user_support)] ?miss) = Inr access_denied_message"
    by simp
  note w2 = wrapper_miss_message [OF k2 world_empty_cache(2) m2]
  have r2: "fst (get_all_notes notes_function env_no_rows [PStr ?c]
      [(py ''__user__'', PDict user_support)] world_empty) = Inr (PStr access_denied_message)"
    by (rule w2(1))
  have t2: "queries (trace (snd (get_all_notes notes_function env_no_rows [PStr ?c]
      [(py ''__user__'', PDict user_support)] world_empty))) =
      [(access_query, [PStr (py ''user789''), PStr ?c])]"
    using w2(2) b2 q2 by simp
  from r1 world_empty_cache(2) g1 r2 t2 show ?thesis by blast
qed


text \<open>
  C3, amended. A call whose client id is missing, empty or blank returns the validation
  message with no effect at all. A call refused by \<^verbatim>\<open>_check_permissions\<close> returns the denial
  message and does nothing after the permission check, so the data query of the operation
  is not sent; the permission check itself sends at most the lookup in the access mapping,
  and nothing when the function-level check refuses. On a cache miss the wrapper hands the
  message of the method to the caller and adds no effect of its own to the log and the
  store.
\<close>

theorem denial_returns_message:
  "(\<not> truthy c \<or> (\<exists>s'. c = PStr s' \<and> str_strip s' = []) \<longrightarrow>
      get_all_notes_body self env c limit usr w = (Inr validation_message, w))
   \<and> (str_strip s \<noteq> []
       \<and> \<not> fst (check_permissions self env u (Some (sanitize_input (Some s))) w) \<longrightarrow>
      get_all_notes_body self env (PStr s) limit (PDict u) w =
        (Inr access_denied_message,
         snd (check_permissions self env u (Some (sanitize_input (Some s))) w))
      \<and> (queries (trace (snd (check_permissions self env u (Some (sanitize_input (Some s))) w)))
            = queries (trace w)
          \<or> queries (trace (snd (check_permissions self env u (Some (sanitize_input (Some s))) w)))
            = queries (trace w) @
              [(access_query, [case map_of u (py ''id'') of None \<Rightarrow> PNone | Some i \<Rightarrow> PStr i,
                               PStr (sanitize_input (Some s))])]))
   \<and> (\<not> can_access_function (user_get u (py ''role'') []) (FUNCTION_NAME self) \<longrightarrow>
      queries (trace (snd (check_permissions self env u cid w))) = queries (trace w))
   \<and> (derive_cache_key (isprintable env) (py ''get_all_notes'') args kwargs = Inr k
       \<and> cache_get (cache w) k = PNone
       \<and> fst (get_all_notes_call self env args kwargs
            (emit (Log INFO (py ''Cache MISS: '' @ k)) w)) = Inr msg \<longrightarrow>
      fst (get_all_notes self env args kwargs w) = Inr (PStr msg)
      \<and> trace (snd (get_all_notes self env args kwargs w)) =
          trace (snd (get_all_notes_call self env args kwargs
            (emit (Log INFO (py ''Cache MISS: '' @ k)) w))))"
  using body_validation [of c self env limit usr w]
    body_denied [of s self env u w limit]
    check_permissions_queries [of self env u "sanitize_input (Some s)" w]
    check_permissions_function_denied_trace [of u self env cid w]
    wrapper_miss_message(1,2) [of env args kwargs k w self msg]
  by blast

theorem denial_returns_message_witness:
  "get_all_notes_body notes_function env_notes (PStr []) (PInt 100) (PDict user_readonly)
      world_empty = (Inr validation_message, world_empty)
   \<and> fst (get_all_notes notes_function env_notes [PStr (py ''CLIENT123'')]
      [(py ''__user__'', PDict user_readonly)] world_empty) = Inr (PStr access_denied_message)
   \<and> queries (trace (snd (get_all_notes notes_function env_notes [PStr (py ''CLIENT123'')]
      [(py ''__user__'', PDict user_readonly)] world_empty))) = []"
proof -
  let ?miss = "emit (Log INFO (py ''Cache MISS: '' @ notes_key)) world_empty"
  let ?c = "py ''CLIENT123''"
  let ?args = "[PStr ?c]" and ?kw = "[(py ''__user__'', PDict user_readonly)]"
  note t = denial_returns_message [of "PStr []" notes_function env_notes "PInt 100"
      "PDict user_readonly" _ ?c user_readonly "Some (sanitize_input (Some ?c))"
      ?args ?kw notes_key access_denied_message]
  have k1: "derive_cache_key (isprintable env_notes) (py ''get_all_notes'') ?args ?kw
      = Inr notes_key"
    by (rule key_client123) (simp add: env_notes_def)
  have nt: "\<not> truthy (PStr [])" by (simp add: truthy_def)
  from t [of world_empty] nt
  have 1: "get_all_notes_body notes_function env_notes (PStr []) (PInt 100) (PDict user_readonly)
      world_empty = (Inr validation_message, world_empty)" by blast
  have d1: "\<not> fst (check_permissions notes_function env_notes user_readonly
      (Some (sanitize_input (Some ?c))) ?miss)"
    by (rule check_permissions_function_denied(1) [OF readonly_refused])
  from t [of ?miss] strip_client123 d1
  have b: "get_all_notes_body notes_function env_notes (PStr ?c) (PInt 100) (PDict user_readonly)
      ?miss = (Inr access_denied_message, snd (check_permissions notes_function env_notes
        user_readonly (Some (sanitize_input (Some ?c))) ?miss))" by blast
  from t [of ?miss] readonly_refused
  have q: "queries (trace (snd (check_permissions notes_function env_notes user_readonly
      (Some (sanitize_input (Some ?c))) ?miss))) = queries (trace ?miss)" by blast
  from b have m: "fst (get_all_notes_call notes_function env_notes ?args ?kw ?miss)
      = Inr access_denied_message"
    by (simp add: call_is_body)
  from t [of world_empty] k1 world_empty_cache(2) [of notes_key] m
  have w: "fst (get_all_notes notes_function env_notes ?args ?kw world_empty)
        = Inr (PStr access_denied_message)
      \<and> trace (snd (get_all_notes notes_function env_notes ?args ?kw world_empty)) =
        trace (snd (get_all_notes_call notes_function env_notes ?args ?kw ?miss))"
    by blast
  have "queries (trace (snd (get_all_notes notes_function env_notes ?args ?kw world_empty))) = []"
    using w b q by (simp add: call_is_body queries_append world_empty_trace)
  with 1 w show ?thesis by blast
qed

text \<open>
  C1. The wrapper reads the cache before the method runs, so a hit is returned without
  validation, authorization or rate limiting. The two calls of the tests, made in the
  order of the test file with the cache available: the administrator's call fills the
  cache, and the call of the read-only caller, whose role may not use the operation, is
  answered with the administrator's notes; its only effect is the log line of the hit.
\<close>

theorem cache_hit_skips_authorization:
  "fst (get_all_notes notes_function env_notes [PStr (py ''CLIENT123'')]
      [(py ''__user__'', PDict user_admin)] world_empty) = Inr (PStr notes_response)
   \<and> \<not> can_access_function (user_get user_readonly (py ''role'') [])
      (FUNCTION_NAME notes_function)
   \<and> get_all_notes notes_function env_notes [PStr (py ''CLIENT123'')]
      [(py ''__user__'', PDict user_readonly)]
      (snd (get_all_notes notes_function env_notes [PStr (py ''CLIENT123'')]
        [(py ''__user__'', PDict user_admin)] world_empty))
     = (Inr (PStr notes_response),
        emit (Log INFO (py ''Cache HIT: '' @ notes_key))
          (snd (get_all_notes notes_function env_notes [PStr (py ''CLIENT123'')]
            [(py ''__user__'', PDict user_admin)] world_empty)))"
proof -
  let ?miss = "emit (Log INFO (py ''Cache MISS: '' @ notes_key)) world_empty"
  let ?c = "py ''CLIENT123''"
  let ?args = "[PStr ?c]"
  let ?first = "get_all_notes notes_function env_notes ?args
      [(py ''__user__'', PDict user_admin)] world_empty"
  have k: "derive_cache_key (isprintable env_notes) (py ''get_all_notes'') ?args
      [(py ''__user__'', PDict u)] = Inr notes_key" for u
    by (rule key_client123) (simp add: env_notes_def)
  have up: "cache_up (cache ?miss)" using world_empty_cache(1) by simp
  have p: "fst (check_permissions notes_function env_notes user_admin
      (Some (sanitize_input (Some ?c))) ?miss)"
    by (rule admin_passes_fresh [of ?miss redis_empty])
      (simp_all add: world_empty_fresh)
  have q: "notes_query env_notes = Some notes_sql" "notes_sql \<noteq> []"
    "database env_notes (max_rows notes_function) notes_sql
      [PInt 100, PStr (sanitize_input (Some ?c))] = Rows [note_row]" "[note_row] \<noteq> []"
    by (simp_all add: env_notes_def notes_sql_def db_one_note_def py_def)
  have f: "format_rows ([0x1F4CB] @ py '' **'' @ int_str (int (length [note_row]))
      @ py '' notes for client '' @ sanitize_input (Some ?c) @ py '':**'' @ newline @ newline)
      [note_row] = Inr notes_response"
    unfolding sanitize_client123 by (rule format_note_row)
  note b = body_rows [OF strip_client123 p q f]
  have m: "fst (get_all_notes_call notes_function env_notes ?args
      [(py ''__user__'', PDict user_admin)] ?miss) = Inr notes_response"
    using b(1) by (simp add: call_is_body)
  note w = wrapper_miss_message [OF k world_empty_cache(2) m]
  have "cache_up (cache (snd (get_all_notes_call notes_function env_notes ?args
      [(py ''__user__'', PDict user_admin)] ?miss)))"
    using b(2) check_permissions_up [OF up, of notes_function env_notes user_admin
        "Some (sanitize_input (Some ?c))"]
    by (simp add: call_is_body)
  from cache_set_then_get(1) [OF this, of 300 notes_key "PStr notes_response"] w(3)
  have g: "cache_get (cache (snd ?first)) notes_key = PStr notes_response" by simp
  then have "cache_get (cache (snd ?first)) notes_key \<noteq> PNone" by simp
  from cache_result_hit [OF k this, of 300 get_all_notes_call notes_function user_readonly] g
  have hit: "get_all_notes notes_function env_notes ?args
      [(py ''__user__'', PDict user_readonly)] (snd ?first) =
      (Inr (PStr notes_response), emit (Log INFO (py ''Cache HIT: '' @ notes_key)) (snd ?first))"
    by (simp add: get_all_notes_def)
  from w(1) readonly_refused hit show ?thesis by blast
qed

end
